theory Spec2Isabelle
  imports Complex_Main
begin

section \<open>Data model\<close>

text \<open>
  The enums of the Prisma schema. \<open>PaymentStatus.PENDING\<close> is written
  \<open>PAYMENT_PENDING\<close>, since \<open>OrderStatus\<close> already has a \<open>PENDING\<close>.
\<close>

datatype Role = CUSTOMER | CHEF | CASHIER | BRANCH_MANAGER | GENERAL_MANAGER | ADMIN

datatype OrderStatus = PENDING | PREPARING | READY | DELIVERED | CANCELLED

datatype PaymentMethod = CASH | CREDIT_CARD | DEBIT_CARD | MOBILE_PAYMENT

datatype PaymentStatus = PAYMENT_PENDING | COMPLETED | FAILED | REFUNDED

subsection \<open>Numbers\<close>

text \<open>
  An amount of money is a JavaScript number, stored in a column of type \<open>DOUBLE
  PRECISION\<close>: an IEEE 754 binary64 value. A finite value is the rational it stands for;
  the two zeros are one value (the handlers never divide, and nothing they do tells the
  zeros apart).
\<close>

datatype double = Num rat | PlusInfinity | MinusInfinity | NaN

text \<open>\<open>bits n\<close> is the length of \<open>n\<close> in binary, \<open>pow2 k\<close> is \<open>2\<close> to the power \<open>k\<close>.\<close>

fun bits :: "nat \<Rightarrow> nat" where
  "bits n = (if n = 0 then 0 else Suc (bits (n div 2)))"

declare bits.simps [simp del]

definition pow2 :: "int \<Rightarrow> rat" where
  "pow2 k = (if 0 \<le> k then 2 ^ nat k else 1 / 2 ^ nat (- k))"

definition exponent :: "rat \<Rightarrow> int" where
  \<comment> \<open>for \<open>0 < a\<close>, the \<open>e\<close> with \<open>pow2 e \<le> a < pow2 (e + 1)\<close>\<close>
  "exponent a =
     (if 1 \<le> a then int (bits (nat \<lfloor>a\<rfloor>)) - 1
      else (let k = int (bits (nat \<lfloor>1 / a\<rfloor>)) - 1
            in if pow2 (- k) \<le> a then - k else - k - 1))"

definition roundHalfEven :: "rat \<Rightarrow> int" where
  "roundHalfEven r =
     (let f = \<lfloor>r\<rfloor>; d = r - of_int f
      in if d < 1 / 2 then f else if 1 / 2 < d then f + 1 else if even f then f else f + 1)"

text \<open>
  Rounding to the nearest binary64 value, ties to the even significand: 53 bits of
  significand, exponents from \<open>-1022\<close> to \<open>1023\<close>, the subnormal values below, and
  infinity from \<open>2\<close> to the power \<open>1024\<close> on. It is what every arithmetic operation does
  to its exact result, and what reading a decimal literal does.
\<close>

definition round64 :: "rat \<Rightarrow> double" where
  "round64 x =
     (if x = 0 then Num 0
      else
        (let e = exponent \<bar>x\<bar>;
             q = pow2 (max e (- 1022) - 52);
             m = roundHalfEven (\<bar>x\<bar> / q)
         in if 1024 \<le> e \<or> (e = 1023 \<and> m = 2 ^ 53)
            then (if 0 < x then PlusInfinity else MinusInfinity)
            else Num (if 0 < x then of_int m * q else - (of_int m * q))))"

definition double_of_int :: "int \<Rightarrow> double" where
  "double_of_int i = round64 (of_int i)"

fun plus_double :: "double \<Rightarrow> double \<Rightarrow> double" where
  "plus_double (Num a) (Num b) = round64 (a + b)"
| "plus_double NaN y = NaN"
| "plus_double x NaN = NaN"
| "plus_double PlusInfinity MinusInfinity = NaN"
| "plus_double MinusInfinity PlusInfinity = NaN"
| "plus_double PlusInfinity y = PlusInfinity"
| "plus_double x PlusInfinity = PlusInfinity"
| "plus_double MinusInfinity y = MinusInfinity"
| "plus_double x MinusInfinity = MinusInfinity"

fun uminus_double :: "double \<Rightarrow> double" where
  "uminus_double (Num a) = Num (- a)"
| "uminus_double PlusInfinity = MinusInfinity"
| "uminus_double MinusInfinity = PlusInfinity"
| "uminus_double NaN = NaN"

definition minus_double :: "double \<Rightarrow> double \<Rightarrow> double" where
  "minus_double x y = plus_double x (uminus_double y)"

fun negative :: "double \<Rightarrow> bool" where
  "negative (Num a) = (a < 0)"
| "negative MinusInfinity = True"
| "negative PlusInfinity = False"
| "negative NaN = False"

fun times_double :: "double \<Rightarrow> double \<Rightarrow> double" where
  "times_double (Num a) (Num b) = round64 (a * b)"
| "times_double NaN y = NaN"
| "times_double x NaN = NaN"
| "times_double x y =
     (if x = Num 0 \<or> y = Num 0 then NaN
      else if negative x = negative y then PlusInfinity else MinusInfinity)"

fun abs_double :: "double \<Rightarrow> double" where
  \<comment> \<open>\<open>Math.abs\<close>\<close>
  "abs_double (Num a) = Num \<bar>a\<bar>"
| "abs_double PlusInfinity = PlusInfinity"
| "abs_double MinusInfinity = PlusInfinity"
| "abs_double NaN = NaN"

fun greater_double :: "double \<Rightarrow> double \<Rightarrow> bool" where
  \<comment> \<open>\<open>x > y\<close>: false when either is \<open>NaN\<close>\<close>
  "greater_double (Num a) (Num b) = (b < a)"
| "greater_double NaN y = False"
| "greater_double x NaN = False"
| "greater_double PlusInfinity y = (y \<noteq> PlusInfinity)"
| "greater_double x PlusInfinity = False"
| "greater_double x MinusInfinity = (x \<noteq> MinusInfinity)"
| "greater_double MinusInfinity y = False"

subsection \<open>Rows\<close>

text \<open>
  \<open>req.user\<close>, as \<open>authenticateToken\<close> sets it: \<open>branchId\<close> is optional. Numbers
  that the code only compares (ids) are integers, and so are quantities; amounts of
  money are binary64 values.
\<close>

record AuthenticatedUser =
  user_id :: int
  user_role :: Role
  user_branchId :: "int option"

record Branch =
  branch_id :: int
  branch_name :: string
  branch_address :: string
  branch_phone :: string

record MenuItem =
  menuItem_id :: int
  menuItem_name :: string
  menuItem_price :: double
  menuItem_isAvailable :: bool
  menuItem_branchId :: int

record OrderItem =
  item_menuItemId :: int
  item_quantity :: int
  item_unitPrice :: double
  item_subtotal :: double

record Order =
  order_id :: int
  order_status :: OrderStatus
  order_totalAmount :: double
  order_deliveryAddress :: "string option"
  order_customerId :: int
  order_branchId :: int
  order_items :: "OrderItem list"

record Payment =
  payment_id :: int
  payment_amount :: double
  payment_method :: PaymentMethod
  payment_status :: PaymentStatus
  payment_orderId :: int

text \<open>
  The store behind \<open>prisma\<close>: one list of rows per table, and the next value of the
  two id sequences. An order carries its own items (they are written with it, in one
  nested create); a payment is a row of its own that refers to its order.
\<close>

record db =
  branches :: "Branch list"
  menuItems :: "MenuItem list"
  orders :: "Order list"
  payments :: "Payment list"
  order_seq :: int
  payment_seq :: int

text \<open>
  Every call of the store is awaited inside a \<open>try\<close>, and may throw. Which calls throw
  in a run is an input of the model: \<open>fails c\<close> says that the call \<open>c\<close> throws. A call
  that throws writes nothing. Of the referential constraints of the schema, the model
  has the two that stand in the way of removing an order (\<open>orderReferenced\<close> below); a
  write that another constraint rejects is a call that throws.
\<close>

datatype store_call =
    BranchFindMany | MenuItemFindUnique
  | OrderFindMany | OrderFindUnique | OrderCreate | OrderUpdate | OrderDelete
  | PaymentCreate | PaymentUpdate

type_synonym faults = "store_call \<Rightarrow> bool"

definition no_faults :: faults where
  "no_faults = (\<lambda>c. False)"

text \<open>
  The responses that are not a success, one constructor for each \<open>res.status(...).json(...)\<close>
  of the handlers; \<open>statusCode\<close> is the HTTP status the code sends with it.
\<close>

datatype error =
    AccessDenied  \<comment> \<open>\<open>authorizeRole\<close>: Access denied. Required role: ...\<close>
  | AuthenticationRequired
  | InsufficientPermissions
  | EmptyOrder
  | NoBranchesAvailable
  | NoBranchOrAddress
  | MenuItemNotFound int
  | MenuItemNotAvailable string
  | ChefsOnlyPreparingOrReady
  | CashiersOnlyDeliveredOrCancelled
  | OrderNotFound
  | CannotTransition OrderStatus string
  | ErrorUpdatingOrderStatus
  | UnauthorizedToDelete
  | CannotDeleteDelivered
  | ErrorDeletingOrder
  | AmountAndMethodRequired
  | UnauthorizedToPay
  | UnauthorizedToProcessPayment
  | PaymentAlreadyProcessed
  | AmountDoesNotMatch
  | InternalServerError  \<comment> \<open>\<open>handleError\<close>\<close>

fun statusCode :: "error \<Rightarrow> nat" where
  "statusCode AccessDenied = 403"
| "statusCode AuthenticationRequired = 401"
| "statusCode InsufficientPermissions = 403"
| "statusCode EmptyOrder = 400"
| "statusCode NoBranchesAvailable = 400"
| "statusCode NoBranchOrAddress = 400"
| "statusCode (MenuItemNotFound i) = 404"
| "statusCode (MenuItemNotAvailable n) = 400"
| "statusCode ChefsOnlyPreparingOrReady = 403"
| "statusCode CashiersOnlyDeliveredOrCancelled = 403"
| "statusCode OrderNotFound = 404"
| "statusCode (CannotTransition s t) = 400"
| "statusCode ErrorUpdatingOrderStatus = 500"
| "statusCode UnauthorizedToDelete = 403"
| "statusCode CannotDeleteDelivered = 400"
| "statusCode ErrorDeletingOrder = 500"
| "statusCode AmountAndMethodRequired = 400"
| "statusCode UnauthorizedToPay = 403"
| "statusCode UnauthorizedToProcessPayment = 403"
| "statusCode PaymentAlreadyProcessed = 400"
| "statusCode AmountDoesNotMatch = 400"
| "statusCode InternalServerError = 500"

subsection \<open>Values of the request\<close>

text \<open>
  JavaScript truthiness, for the values the handlers test: a number is falsy when it is
  absent or \<open>0\<close>, a string when it is absent or empty.
\<close>

definition truthy_number :: "int option \<Rightarrow> bool" where
  "truthy_number x = (case x of None \<Rightarrow> False | Some n \<Rightarrow> n \<noteq> 0)"

definition truthy_string :: "string option \<Rightarrow> bool" where
  "truthy_string x = (case x of None \<Rightarrow> False | Some s \<Rightarrow> s \<noteq> [])"

text \<open>
  A status arrives as a string of the request and is stored as a value of the enum; the
  store rejects a string that names no value.
\<close>

fun statusName :: "OrderStatus \<Rightarrow> string" where
  "statusName PENDING = ''PENDING''"
| "statusName PREPARING = ''PREPARING''"
| "statusName READY = ''READY''"
| "statusName DELIVERED = ''DELIVERED''"
| "statusName CANCELLED = ''CANCELLED''"

definition parseStatus :: "string \<Rightarrow> OrderStatus option" where
  "parseStatus s = List.find (\<lambda>t. statusName t = s) [PENDING, PREPARING, READY, DELIVERED, CANCELLED]"

section \<open>The store\<close>

definition findOrder :: "int \<Rightarrow> db \<Rightarrow> Order option" where
  "findOrder i d = List.find (\<lambda>r. order_id r = i) (orders d)"

definition findPayment :: "int \<Rightarrow> db \<Rightarrow> Payment option" where
  \<comment> \<open>\<open>include: { payment: true }\<close>: the payment whose \<open>orderId\<close> is the order's id\<close>
  "findPayment i d = List.find (\<lambda>p. payment_orderId p = i) (payments d)"

definition updatePaymentStatus :: "int \<Rightarrow> PaymentStatus \<Rightarrow> db \<Rightarrow> db" where
  "updatePaymentStatus pid s d =
     d\<lparr>payments := map (\<lambda>p. if payment_id p = pid then p\<lparr>payment_status := s\<rparr> else p) (payments d)\<rparr>"

definition updateOrder :: "int \<Rightarrow> OrderStatus \<Rightarrow> db \<Rightarrow> db" where
  "updateOrder i s d =
     d\<lparr>orders := map (\<lambda>r. if order_id r = i then r\<lparr>order_status := s\<rparr> else r) (orders d)\<rparr>"

definition deleteOrderRow :: "int \<Rightarrow> db \<Rightarrow> db" where
  "deleteOrderRow i d = d\<lparr>orders := filter (\<lambda>r. order_id r \<noteq> i) (orders d)\<rparr>"

text \<open>
  The migrations give the foreign keys \<open>Payment_orderId_fkey\<close> and
  \<open>OrderItem_orderId_fkey\<close> the action \<open>ON DELETE RESTRICT\<close>: the database refuses to
  remove an order while a payment or an order item refers to it, and
  \<open>prisma.order.delete\<close> throws. (The receipts, which the model does not have, refer to
  their order in the same way.)
\<close>

definition orderReferenced :: "int \<Rightarrow> db \<Rightarrow> bool" where
  "orderReferenced i d =
     (case findPayment i d of
        Some payment \<Rightarrow> True
      | None \<Rightarrow> (case findOrder i d of None \<Rightarrow> False | Some order \<Rightarrow> order_items order \<noteq> []))"

section \<open>Middleware\<close>

definition authorizeRole :: "Role list \<Rightarrow> AuthenticatedUser \<Rightarrow> bool" where
  \<comment> \<open>whether the middleware calls \<open>next()\<close>; otherwise it answers 403\<close>
  "authorizeRole roles user = (user_role user \<in> set roles)"

section \<open>Order status\<close>

fun validTransitions :: "OrderStatus \<Rightarrow> string list" where
  "validTransitions PENDING = [''PREPARING'', ''CANCELLED'', ''DELIVERED'']"
| "validTransitions PREPARING = [''READY'', ''CANCELLED'']"
| "validTransitions READY = [''DELIVERED'', ''CANCELLED'']"
| "validTransitions DELIVERED = []"
| "validTransitions CANCELLED = []"

definition updateOrderStatus ::
  "faults \<Rightarrow> AuthenticatedUser \<Rightarrow> int \<Rightarrow> string \<Rightarrow> db \<Rightarrow> (error + Order) \<times> db" where
  "updateOrderStatus fails user i status d =
    (if user_role user = CHEF \<and> status \<notin> set [''PREPARING'', ''READY'']
       then (Inl ChefsOnlyPreparingOrReady, d)
     else if user_role user = CASHIER \<and> status \<notin> set [''DELIVERED'', ''CANCELLED'']
       then (Inl CashiersOnlyDeliveredOrCancelled, d)
     else if fails OrderFindUnique then (Inl ErrorUpdatingOrderStatus, d)
     else case findOrder i d of
       None \<Rightarrow> (Inl OrderNotFound, d)
     | Some currentOrder \<Rightarrow>
        if status \<notin> set (validTransitions (order_status currentOrder))
          then (Inl (CannotTransition (order_status currentOrder) status), d)
        else
          (let refund = (if status = ''CANCELLED'' then findPayment i d else None) in
           if refund \<noteq> None \<and> fails PaymentUpdate then (Inl ErrorUpdatingOrderStatus, d)
           else
             (let d1 = (case refund of
                          Some payment \<Rightarrow> updatePaymentStatus (payment_id payment) REFUNDED d
                        | None \<Rightarrow> d) in
              if fails OrderUpdate then (Inl ErrorUpdatingOrderStatus, d1)
              else case parseStatus status of
                None \<Rightarrow> (Inl ErrorUpdatingOrderStatus, d1)
              | Some s \<Rightarrow> (Inr (currentOrder\<lparr>order_status := s\<rparr>), updateOrder i s d1))))"

definition patchOrderStatus ::
  "faults \<Rightarrow> AuthenticatedUser \<Rightarrow> int \<Rightarrow> string \<Rightarrow> db \<Rightarrow> (error + Order) \<times> db" where
  \<comment> \<open>\<open>router.patch('/:id/status', authorizeRole(['CHEF', 'CASHIER']), updateOrderStatus)\<close>\<close>
  "patchOrderStatus fails user i status d =
    (if authorizeRole [CHEF, CASHIER] user then updateOrderStatus fails user i status d
     else (Inl AccessDenied, d))"

section \<open>Deleting an order\<close>

definition deleteOrder ::
  "faults \<Rightarrow> AuthenticatedUser \<Rightarrow> int \<Rightarrow> db \<Rightarrow> (error + unit) \<times> db" where
  "deleteOrder fails user i d =
    (if fails OrderFindUnique then (Inl ErrorDeletingOrder, d)
     else if user_role user \<notin> set [ADMIN, BRANCH_MANAGER] then (Inl UnauthorizedToDelete, d)
     else case findOrder i d of
       None \<Rightarrow> (Inl OrderNotFound, d)
     | Some order \<Rightarrow>
        if order_status order = DELIVERED then (Inl CannotDeleteDelivered, d)
        else
          (let refund = findPayment i d in
           if refund \<noteq> None \<and> fails PaymentUpdate then (Inl ErrorDeletingOrder, d)
           else
             (let d1 = (case refund of
                          Some payment \<Rightarrow> updatePaymentStatus (payment_id payment) REFUNDED d
                        | None \<Rightarrow> d) in
              if fails OrderDelete \<or> orderReferenced i d1 then (Inl ErrorDeletingOrder, d1)
              else (Inr (), deleteOrderRow i d1))))"

definition deleteOrderRoute ::
  "faults \<Rightarrow> AuthenticatedUser \<Rightarrow> int \<Rightarrow> db \<Rightarrow> (error + unit) \<times> db" where
  \<comment> \<open>\<open>router.delete('/:id', authorizeRole(['ADMIN', 'BRANCH_MANAGER']), deleteOrder)\<close>\<close>
  "deleteOrderRoute fails user i d =
    (if authorizeRole [ADMIN, BRANCH_MANAGER] user then deleteOrder fails user i d
     else (Inl AccessDenied, d))"

section \<open>Listing orders\<close>

text \<open>
  The query string of \<open>GET /orders\<close>. \<open>q_branchId\<close> and \<open>q_customerId\<close> are the
  numbers that \<open>Number(...)\<close> reads from a parameter that is present and not empty (a
  query parameter is a string, so \<open>"0"\<close> is truthy); \<open>q_status\<close> is the string as sent.
\<close>

record OrderQuery =
  q_branchId :: "int option"
  q_status :: "string option"
  q_customerId :: "int option"

record whereClause =
  where_branchId :: "int option"
  where_customerId :: "int option"
  where_status :: "string option"

definition roleFilter :: "AuthenticatedUser \<Rightarrow> whereClause \<Rightarrow> whereClause" where
  "roleFilter user w =
    (if user_role user = CHEF \<or> user_role user = CASHIER then
       (if truthy_number (user_branchId user) then w\<lparr>where_branchId := user_branchId user\<rparr> else w)
     else if user_role user = CUSTOMER then w\<lparr>where_customerId := Some (user_id user)\<rparr>
     else if user_role user = BRANCH_MANAGER then
       (if truthy_number (user_branchId user) then w\<lparr>where_branchId := user_branchId user\<rparr> else w)
     else w)"

definition queryFilter :: "AuthenticatedUser \<Rightarrow> OrderQuery \<Rightarrow> whereClause \<Rightarrow> whereClause" where
  "queryFilter user q w =
    (let w1 = (if q_branchId q \<noteq> None \<and> (user_role user = ADMIN \<or> user_role user = GENERAL_MANAGER)
                then w\<lparr>where_branchId := q_branchId q\<rparr> else w);
         w2 = (if truthy_string (q_status q) then w1\<lparr>where_status := q_status q\<rparr> else w1)
     in if q_customerId q \<noteq> None \<and>
           (user_role user = ADMIN \<or> user_role user = GENERAL_MANAGER \<or> user_role user = BRANCH_MANAGER)
        then w2\<lparr>where_customerId := q_customerId q\<rparr> else w2)"

definition orderWhere :: "AuthenticatedUser \<Rightarrow> OrderQuery \<Rightarrow> whereClause" where
  "orderWhere user q =
     queryFilter user q
       (roleFilter user \<lparr>where_branchId = None, where_customerId = None, where_status = None\<rparr>)"

definition matchesWhere :: "whereClause \<Rightarrow> OrderStatus option \<Rightarrow> Order \<Rightarrow> bool" where
  "matchesWhere w st r =
    ((case where_branchId w of None \<Rightarrow> True | Some b \<Rightarrow> order_branchId r = b) \<and>
     (case where_customerId w of None \<Rightarrow> True | Some c \<Rightarrow> order_customerId r = c) \<and>
     (case st of None \<Rightarrow> True | Some s \<Rightarrow> order_status r = s))"

text \<open>
  \<open>findMany\<close> returns the rows that match every field of the clause; a status that names
  no value of the enum is rejected by the store. The rows come in the order of the
  table: the sorting by \<open>createdAt\<close> is not modelled.
\<close>

definition getOrders :: "faults \<Rightarrow> AuthenticatedUser \<Rightarrow> OrderQuery \<Rightarrow> db \<Rightarrow> error + Order list" where
  "getOrders fails user q d =
    (let w = orderWhere user q in
     if fails OrderFindMany then Inl InternalServerError
     else case where_status w of
       None \<Rightarrow> Inr (filter (matchesWhere w None) (orders d))
     | Some s \<Rightarrow>
        (case parseStatus s of
           None \<Rightarrow> Inl InternalServerError
         | Some st \<Rightarrow> Inr (filter (matchesWhere w (Some st)) (orders d))))"

section \<open>Creating an order\<close>

text \<open>
  A requested item has the id of a menu item and a quantity. Both are integers: the
  store rejects every other value for the \<open>Int\<close> columns they are read for and
  written to.
\<close>

record OrderItemRequest =
  req_menuItemId :: int
  req_quantity :: int

record CreateOrderBody =
  body_branchId :: "int option"
  body_items :: "OrderItemRequest list"
  body_deliveryAddress :: "string option"
  body_customerId :: "int option"

subsection \<open>Branch assignment\<close>

text \<open>
  \<open>str.toLowerCase().replace(/[^a-z0-9]/g, '')\<close>. A string of the model is a list of
  8-bit characters: the letters that \<open>toLowerCase\<close> changes are \<open>A\<close> to \<open>Z\<close>, and every
  character that is not an ASCII letter or digit is removed.
\<close>

definition toLowerCase :: "char \<Rightarrow> char" where
  "toLowerCase c =
     (if 65 \<le> (of_char c :: nat) \<and> (of_char c :: nat) \<le> 90 then char_of (of_char c + 32 :: nat) else c)"

definition alphanumeric :: "char \<Rightarrow> bool" where
  \<comment> \<open>the class \<open>[a-z0-9]\<close>\<close>
  "alphanumeric c =
     ((97 \<le> (of_char c :: nat) \<and> (of_char c :: nat) \<le> 122) \<or>
      (48 \<le> (of_char c :: nat) \<and> (of_char c :: nat) \<le> 57))"

definition normalize_str :: "string \<Rightarrow> string" where
  "normalize_str str = filter alphanumeric (map toLowerCase str)"

text \<open>
  The inner loop: \<open>i\<close> runs below the length of the shorter string, and \<open>score\<close> counts
  the positions where the two strings have the same character.
\<close>

fun score :: "string \<Rightarrow> string \<Rightarrow> nat" where
  "score (a # branchNorm) (b # input) = (if a = b then 1 else 0) + score branchNorm input"
| "score [] input = 0"
| "score branchNorm [] = 0"

text \<open>The outer loop over the branches, with its two variables \<open>best\<close> and \<open>bestScore\<close>.\<close>

fun bestBranch :: "string \<Rightarrow> Branch list \<Rightarrow> Branch \<Rightarrow> nat \<Rightarrow> Branch" where
  "bestBranch input [] best bestScore = best"
| "bestBranch input (branch # rest) best bestScore =
     (if score (normalize_str (branch_address branch)) input > bestScore
        then bestBranch input rest branch (score (normalize_str (branch_address branch)) input)
      else bestBranch input rest best bestScore)"

definition assignBranch :: "faults \<Rightarrow> CreateOrderBody \<Rightarrow> db \<Rightarrow> error + int option" where
  \<comment> \<open>the value of \<open>branchId\<close> after the block \<open>if (!branchId && deliveryAddress)\<close>\<close>
  "assignBranch fails body d =
    (case body_deliveryAddress body of
       None \<Rightarrow> Inr (body_branchId body)
     | Some deliveryAddress \<Rightarrow>
        if truthy_number (body_branchId body) \<or> deliveryAddress = [] then Inr (body_branchId body)
        else if fails BranchFindMany then Inl InternalServerError
        else (case branches d of
                [] \<Rightarrow> Inl NoBranchesAvailable
              | first # rest \<Rightarrow>
                  Inr (Some (branch_id (bestBranch (normalize_str deliveryAddress) (branches d) first 0)))))"

subsection \<open>Items and total\<close>

definition findMenuItem :: "int \<Rightarrow> db \<Rightarrow> MenuItem option" where
  "findMenuItem i d = List.find (\<lambda>m. menuItem_id m = i) (menuItems d)"

text \<open>
  The loop over the requested items, with its two variables \<open>orderItems\<close> and
  \<open>totalAmount\<close>; a \<open>return\<close> inside the loop is the error.
\<close>

fun processItems ::
  "faults \<Rightarrow> db \<Rightarrow> OrderItemRequest list \<Rightarrow> OrderItem list \<Rightarrow> double
     \<Rightarrow> error + (OrderItem list \<times> double)" where
  "processItems fails d [] orderItems totalAmount = Inr (orderItems, totalAmount)"
| "processItems fails d (item # rest) orderItems totalAmount =
    (if fails MenuItemFindUnique then Inl InternalServerError
     else case findMenuItem (req_menuItemId item) d of
       None \<Rightarrow> Inl (MenuItemNotFound (req_menuItemId item))
     | Some menuItem \<Rightarrow>
        if \<not> menuItem_isAvailable menuItem then Inl (MenuItemNotAvailable (menuItem_name menuItem))
        else processItems fails d rest
               (orderItems @
                 [\<lparr>item_menuItemId = menuItem_id menuItem,
                   item_quantity = req_quantity item,
                   item_unitPrice = menuItem_price menuItem,
                   item_subtotal =
                     times_double (menuItem_price menuItem) (double_of_int (req_quantity item))\<rparr>])
               (plus_double totalAmount
                  (times_double (menuItem_price menuItem) (double_of_int (req_quantity item)))))"

subsection \<open>The handler\<close>

definition actualCustomerId :: "AuthenticatedUser \<Rightarrow> int option \<Rightarrow> error + int" where
  "actualCustomerId user customerId =
    (if user_role user = CUSTOMER then Inr (user_id user)
     else if user_role user = CASHIER then
       Inr (case customerId of None \<Rightarrow> user_id user | Some c \<Rightarrow> if c \<noteq> 0 then c else user_id user)
     else if user_role user = BRANCH_MANAGER \<or> user_role user = ADMIN \<or> user_role user = GENERAL_MANAGER then
       Inr (case customerId of None \<Rightarrow> user_id user | Some c \<Rightarrow> if c \<noteq> 0 then c else user_id user)
     else Inl InsufficientPermissions)"

definition createOrder ::
  "faults \<Rightarrow> AuthenticatedUser \<Rightarrow> CreateOrderBody \<Rightarrow> db \<Rightarrow> (error + Order) \<times> db" where
  "createOrder fails user body d =
    (if user_id user = 0 then (Inl AuthenticationRequired, d)
     else case actualCustomerId user (body_customerId body) of
       Inl e \<Rightarrow> (Inl e, d)
     | Inr customer \<Rightarrow>
        if body_items body = [] then (Inl EmptyOrder, d)
        else (case assignBranch fails body d of
           Inl e \<Rightarrow> (Inl e, d)
         | Inr branchId \<Rightarrow>
            (case branchId of
               None \<Rightarrow> (Inl NoBranchOrAddress, d)
             | Some b \<Rightarrow>
                if b = 0 then (Inl NoBranchOrAddress, d)
                else (case processItems fails d (body_items body) [] (Num 0) of
                   Inl e \<Rightarrow> (Inl e, d)
                 | Inr (orderItems, totalAmount) \<Rightarrow>
                    if fails OrderCreate then (Inl InternalServerError, d)
                    else
                      (let order =
                         \<lparr>order_id = order_seq d,
                          order_status = PENDING,
                          order_totalAmount = totalAmount,
                          order_deliveryAddress =
                            (if truthy_string (body_deliveryAddress body)
                             then body_deliveryAddress body else None),
                          order_customerId = customer,
                          order_branchId = b,
                          order_items = orderItems\<rparr>
                       in (Inr order,
                           d\<lparr>orders := orders d @ [order], order_seq := order_seq d + 1\<rparr>))))))"

definition postOrder ::
  "faults \<Rightarrow> AuthenticatedUser \<Rightarrow> CreateOrderBody \<Rightarrow> db \<Rightarrow> (error + Order) \<times> db" where
  \<comment> \<open>\<open>router.post('/', authorizeRole(['CUSTOMER', 'CASHIER']), asyncHandler(createOrder))\<close>\<close>
  "postOrder fails user body d =
    (if authorizeRole [CUSTOMER, CASHIER] user then createOrder fails user body d
     else (Inl AccessDenied, d))"

section \<open>Payments\<close>

fun methodName :: "PaymentMethod \<Rightarrow> string" where
  "methodName CASH = ''CASH''"
| "methodName CREDIT_CARD = ''CREDIT_CARD''"
| "methodName DEBIT_CARD = ''DEBIT_CARD''"
| "methodName MOBILE_PAYMENT = ''MOBILE_PAYMENT''"

definition parseMethod :: "string \<Rightarrow> PaymentMethod option" where
  "parseMethod s = List.find (\<lambda>m. methodName m = s) [CASH, CREDIT_CARD, DEBIT_CARD, MOBILE_PAYMENT]"

text \<open>
  The body of the request is JSON that nothing has typed. The handler does three things
  with \<open>amount\<close>: it tests \<open>!amount\<close>, it subtracts the total from it (which
  converts it with \<open>Number\<close>), and it stores \<open>parseFloat(amount)\<close>. A JSON number is
  falsy when it is \<open>0\<close>, and both conversions give the number itself. Any other value
  (absent, \<open>null\<close>, a string, ...) is given by what the three operations make of it: the
  string \<open>"999abc"\<close> is truthy, \<open>Number\<close> makes \<open>NaN\<close> of it and \<open>parseFloat\<close> makes
  \<open>999\<close>.
\<close>

datatype amount_value = AmountNumber double | AmountOther bool double double

fun truthy_amount :: "amount_value \<Rightarrow> bool" where
  "truthy_amount (AmountNumber n) = (n \<noteq> Num 0 \<and> n \<noteq> NaN)"
| "truthy_amount (AmountOther t n p) = t"

fun toNumber :: "amount_value \<Rightarrow> double" where
  "toNumber (AmountNumber n) = n"
| "toNumber (AmountOther t n p) = n"

fun parseFloat :: "amount_value \<Rightarrow> double" where
  "parseFloat (AmountNumber n) = n"
| "parseFloat (AmountOther t n p) = p"

text \<open>
  \<open>method\<close> is \<open>None\<close> when the field is absent, and otherwise the string sent (the
  store rejects every value that does not name a payment method). The literal \<open>0.01\<close>
  is the binary64 value nearest to one hundredth. The handler hands \<open>parseFloat(amount)\<close>
  to the store as it is; a create that the store refuses is a create that throws.
\<close>

definition processPayment ::
  "faults \<Rightarrow> AuthenticatedUser \<Rightarrow> int \<Rightarrow> amount_value \<Rightarrow> string option \<Rightarrow> db
     \<Rightarrow> (error + Payment) \<times> db" where
  "processPayment fails user orderId amount method d =
    (case method of
       None \<Rightarrow> (Inl AmountAndMethodRequired, d)
     | Some m \<Rightarrow>
         if \<not> truthy_amount amount \<or> m = [] then (Inl AmountAndMethodRequired, d)
         else if fails OrderFindUnique then (Inl InternalServerError, d)
         else (case findOrder orderId d of
            None \<Rightarrow> (Inl OrderNotFound, d)
          | Some order \<Rightarrow>
             if user_role user = CUSTOMER \<and> order_customerId order \<noteq> user_id user
               then (Inl UnauthorizedToPay, d)
             else if user_role user = CASHIER \<and> Some (order_branchId order) \<noteq> user_branchId user
               then (Inl UnauthorizedToProcessPayment, d)
             else if findPayment orderId d \<noteq> None then (Inl PaymentAlreadyProcessed, d)
             else if greater_double
                       (abs_double (minus_double (toNumber amount) (order_totalAmount order)))
                       (round64 (1 / 100))
               then (Inl AmountDoesNotMatch, d)
             else if fails PaymentCreate then (Inl InternalServerError, d)
             else (case parseMethod m of
                None \<Rightarrow> (Inl InternalServerError, d)
              | Some pm \<Rightarrow>
                 (let payment =
                    \<lparr>payment_id = payment_seq d,
                     payment_amount = parseFloat amount,
                     payment_method = pm,
                     payment_status = COMPLETED,
                     payment_orderId = orderId\<rparr>
                  in (Inr payment,
                      d\<lparr>payments := payments d @ [payment],
                        payment_seq := payment_seq d + 1\<rparr>)))))"

definition postPayment ::
  "faults \<Rightarrow> AuthenticatedUser \<Rightarrow> int \<Rightarrow> amount_value \<Rightarrow> string option \<Rightarrow> db
     \<Rightarrow> (error + Payment) \<times> db" where
  \<comment> \<open>\<open>router.post('/:orderId', authorizeRole(['CUSTOMER', 'CASHIER']), processPayment)\<close>\<close>
  "postPayment fails user orderId amount method d =
    (if authorizeRole [CUSTOMER, CASHIER] user then processPayment fails user orderId amount method d
     else (Inl AccessDenied, d))"

section \<open>The transition table of the specification\<close>

text \<open>
  The statuses a role may request, as the specification's table of roles gives them:
  a chef \<open>PREPARING\<close> and \<open>READY\<close>, a cashier \<open>DELIVERED\<close> and \<open>CANCELLED\<close>, every
  other role none (it cannot call the operation). This definition follows the
  specification; the theorems compare it with \<open>patchOrderStatus\<close>.
\<close>

fun rolePermittedSet :: "Role \<Rightarrow> string list" where
  "rolePermittedSet CHEF = [''PREPARING'', ''READY'']"
| "rolePermittedSet CASHIER = [''DELIVERED'', ''CANCELLED'']"
| "rolePermittedSet CUSTOMER = []"
| "rolePermittedSet BRANCH_MANAGER = []"
| "rolePermittedSet GENERAL_MANAGER = []"
| "rolePermittedSet ADMIN = []"

section \<open>Notions of the specification about order creation\<close>

text \<open>
  The similarity of the specification: the number of positions, up to the length of the
  shorter string, at which two strings have the same character.
\<close>

definition matchingPositions :: "string \<Rightarrow> string \<Rightarrow> nat" where
  "matchingPositions a b = length (filter (\<lambda>(x, y). x = y) (zip a b))"

text \<open>
  A requested item cannot be ordered when the catalog has no menu item of its id, or has
  one that is not available; \<open>itemError\<close> is the error the specification gives for it.
\<close>

definition notOrderable :: "db \<Rightarrow> OrderItemRequest \<Rightarrow> bool" where
  "notOrderable d item =
     (case findMenuItem (req_menuItemId item) d of
        None \<Rightarrow> True
      | Some menuItem \<Rightarrow> \<not> menuItem_isAvailable menuItem)"

definition itemError :: "db \<Rightarrow> OrderItemRequest \<Rightarrow> error" where
  "itemError d item =
     (case findMenuItem (req_menuItemId item) d of
        None \<Rightarrow> MenuItemNotFound (req_menuItemId item)
      | Some menuItem \<Rightarrow> MenuItemNotAvailable (menuItem_name menuItem))"

text \<open>
  The sum of a list of amounts as the code adds them: from \<open>0\<close>, in the order of the
  list, every addition rounded to binary64. The amount of an item of an order is its
  unit price times its quantity, the product rounded to binary64.
\<close>

definition sum_double :: "double list \<Rightarrow> double" where
  "sum_double xs = foldl plus_double (Num 0) xs"

definition lineAmount :: "OrderItem \<Rightarrow> double" where
  "lineAmount orderItem =
     times_double (item_unitPrice orderItem) (double_of_int (item_quantity orderItem))"

text \<open>
  An item of an order is priced from the catalog for a request when it has the request's
  menu item and quantity, and its unit price is the price of that menu item in the
  catalog.
\<close>

definition pricedFromCatalog :: "db \<Rightarrow> OrderItemRequest \<Rightarrow> OrderItem \<Rightarrow> bool" where
  "pricedFromCatalog d item orderItem =
     (case findMenuItem (req_menuItemId item) d of
        None \<Rightarrow> False
      | Some menuItem \<Rightarrow>
          item_menuItemId orderItem = req_menuItemId item \<and>
          item_quantity orderItem = req_quantity item \<and>
          item_unitPrice orderItem = menuItem_price menuItem)"

section \<open>A small restaurant\<close>

text \<open>
  Two branches, three menu items, and three orders: order 1 is \<open>READY\<close> at branch 1 and
  paid, order 2 is \<open>PENDING\<close> at branch 2 and not paid, order 3 is \<open>DELIVERED\<close> at
  branch 1 and paid.
\<close>

definition elm :: Branch where
  "elm = \<lparr>branch_id = 1, branch_name = ''Elm'', branch_address = ''42 Elm St'', branch_phone = ''555-0101''\<rparr>"

definition oak :: Branch where
  "oak = \<lparr>branch_id = 2, branch_name = ''Oak'', branch_address = ''99 Oak Ave'', branch_phone = ''555-0102''\<rparr>"

definition steak :: MenuItem where
  "steak = \<lparr>menuItem_id = 3, menuItem_name = ''Steak'', menuItem_price = Num 10,
            menuItem_isAvailable = True, menuItem_branchId = 1\<rparr>"

definition soup :: MenuItem where
  "soup = \<lparr>menuItem_id = 4, menuItem_name = ''Soup'', menuItem_price = Num 4,
           menuItem_isAvailable = False, menuItem_branchId = 1\<rparr>"

definition mint :: MenuItem where
  \<comment> \<open>a mint at 0.1, the binary64 value nearest to one tenth\<close>
  "mint = \<lparr>menuItem_id = 6, menuItem_name = ''Mint'', menuItem_price = round64 (1 / 10),
           menuItem_isAvailable = True, menuItem_branchId = 1\<rparr>"

definition two_steaks :: OrderItem where
  "two_steaks = \<lparr>item_menuItemId = 3, item_quantity = 2, item_unitPrice = Num 10, item_subtotal = Num 20\<rparr>"

definition order1 :: Order where
  "order1 = \<lparr>order_id = 1, order_status = READY, order_totalAmount = Num 20,
             order_deliveryAddress = None, order_customerId = 7, order_branchId = 1,
             order_items = [two_steaks]\<rparr>"

definition order2 :: Order where
  "order2 = \<lparr>order_id = 2, order_status = PENDING, order_totalAmount = Num 20,
             order_deliveryAddress = None, order_customerId = 8, order_branchId = 2,
             order_items = [two_steaks]\<rparr>"

definition order3 :: Order where
  "order3 = \<lparr>order_id = 3, order_status = DELIVERED, order_totalAmount = Num 20,
             order_deliveryAddress = None, order_customerId = 7, order_branchId = 1,
             order_items = [two_steaks]\<rparr>"

definition payment1 :: Payment where
  "payment1 = \<lparr>payment_id = 1, payment_amount = Num 20, payment_method = CASH,
               payment_status = COMPLETED, payment_orderId = 1\<rparr>"

definition payment3 :: Payment where
  "payment3 = \<lparr>payment_id = 2, payment_amount = Num 20, payment_method = CREDIT_CARD,
               payment_status = COMPLETED, payment_orderId = 3\<rparr>"

definition restaurant :: db where
  "restaurant = \<lparr>branches = [elm, oak], menuItems = [steak, soup, mint],
                 orders = [order1, order2, order3], payments = [payment1, payment3],
                 order_seq = 4, payment_seq = 3\<rparr>"

definition customer7 :: AuthenticatedUser where
  "customer7 = \<lparr>user_id = 7, user_role = CUSTOMER, user_branchId = None\<rparr>"

definition chef1 :: AuthenticatedUser where
  "chef1 = \<lparr>user_id = 11, user_role = CHEF, user_branchId = Some 1\<rparr>"

definition cashier1 :: AuthenticatedUser where
  "cashier1 = \<lparr>user_id = 12, user_role = CASHIER, user_branchId = Some 1\<rparr>"

definition manager1 :: AuthenticatedUser where
  "manager1 = \<lparr>user_id = 13, user_role = BRANCH_MANAGER, user_branchId = Some 1\<rparr>"

definition chef_unassigned :: AuthenticatedUser where
  "chef_unassigned = \<lparr>user_id = 14, user_role = CHEF, user_branchId = None\<rparr>"


definition elm_street_order :: CreateOrderBody where
  \<comment> \<open>two steaks to 42 Elm Street, with no branch and with a customer id that is not the user's\<close>
  "elm_street_order =
     \<lparr>body_branchId = None, body_items = [\<lparr>req_menuItemId = 3, req_quantity = 2\<rparr>],
      body_deliveryAddress = Some ''42 Elm Street'', body_customerId = Some 99\<rparr>"

definition mint_order :: CreateOrderBody where
  \<comment> \<open>three mints at branch 1\<close>
  "mint_order =
     \<lparr>body_branchId = Some 1, body_items = [\<lparr>req_menuItemId = 6, req_quantity = 3\<rparr>],
      body_deliveryAddress = None, body_customerId = None\<rparr>"

definition soup_order :: CreateOrderBody where
  \<comment> \<open>a steak, then the soup that is not available, then a menu item that does not exist\<close>
  "soup_order =
     \<lparr>body_branchId = Some 1,
      body_items = [\<lparr>req_menuItemId = 3, req_quantity = 1\<rparr>, \<lparr>req_menuItemId = 4, req_quantity = 1\<rparr>,
                    \<lparr>req_menuItemId = 5, req_quantity = 1\<rparr>],
      body_deliveryAddress = None, body_customerId = None\<rparr>"

definition manager2 :: AuthenticatedUser where
  "manager2 = \<lparr>user_id = 16, user_role = BRANCH_MANAGER, user_branchId = Some 2\<rparr>"


definition order_update_fails :: faults where
  "order_update_fails = (\<lambda>c. c = OrderUpdate)"

lemmas restaurant_defs =
  elm_def oak_def steak_def soup_def mint_def two_steaks_def order1_def order2_def order3_def
  payment1_def payment3_def restaurant_def

section \<open>Lemmas about the store\<close>

lemma find_map_status:
  "List.find (\<lambda>r. order_id r = i) rs = Some r \<Longrightarrow>
   List.find (\<lambda>r. order_id r = i)
     (map (\<lambda>r. if order_id r = i then r\<lparr>order_status := s\<rparr> else r) rs) =
   Some (r\<lparr>order_status := s\<rparr>)"
  by (induction rs) (auto split: if_splits)

lemma orders_updatePaymentStatus: "orders (updatePaymentStatus p s d) = orders d"
  by (simp add: updatePaymentStatus_def)

lemma payments_updateOrder: "payments (updateOrder i s d) = payments d"
  by (simp add: updateOrder_def)

lemma findOrder_updateOrder:
  "findOrder i d = Some r \<Longrightarrow> orders d1 = orders d \<Longrightarrow>
   findOrder i (updateOrder i s d1) = Some (r\<lparr>order_status := s\<rparr>)"
  by (simp add: findOrder_def updateOrder_def find_map_status)

lemma find_map_same:
  "(\<And>x. P (f x) = P x) \<Longrightarrow> List.find P (map f xs) = map_option f (List.find P xs)"
  by (induction xs) auto

lemma findPayment_updatePaymentStatus:
  "findPayment i d = Some p \<Longrightarrow>
   findPayment i (updatePaymentStatus (payment_id p) s d) = Some (p\<lparr>payment_status := s\<rparr>)"
  by (simp add: findPayment_def updatePaymentStatus_def find_map_same)

lemma findOrder_updatePaymentStatus: "findOrder i (updatePaymentStatus p s d) = findOrder i d"
  by (simp add: findOrder_def updatePaymentStatus_def)

lemma findPayment_updateOrder: "findPayment i (updateOrder j s d) = findPayment i d"
  by (simp add: findPayment_def updateOrder_def)

lemma findPayment_deleteOrderRow: "findPayment i (deleteOrderRow j d) = findPayment i d"
  by (simp add: findPayment_def deleteOrderRow_def)

lemma findOrder_deleteOrderRow: "findOrder i (deleteOrderRow i d) = None"
  by (simp add: findOrder_def deleteOrderRow_def find_None_iff)

lemma parseStatus_CANCELLED: "parseStatus ''CANCELLED'' = Some CANCELLED"
  by (simp add: parseStatus_def)

lemma parseStatus_validTransitions:
  "status \<in> set (validTransitions s0) \<Longrightarrow> \<exists>s. parseStatus status = Some s \<and> statusName s = status"
  by (cases s0) (auto simp: parseStatus_def)

section \<open>Status transitions\<close>

lemma updateOrderStatus_accepts:
  assumes "findOrder i d = Some order"
    and "\<not> fails OrderFindUnique" and "\<not> fails PaymentUpdate" and "\<not> fails OrderUpdate"
    and "status \<in> set (validTransitions (order_status order))"
    and "user_role user = CHEF \<longrightarrow> status \<in> set [''PREPARING'', ''READY'']"
    and "user_role user = CASHIER \<longrightarrow> status \<in> set [''DELIVERED'', ''CANCELLED'']"
    and "parseStatus status = Some s"
  shows "fst (updateOrderStatus fails user i status d) = Inr (order\<lparr>order_status := s\<rparr>) \<and>
         findOrder i (snd (updateOrderStatus fails user i status d)) = Some (order\<lparr>order_status := s\<rparr>)"
  using assms
  by (auto simp: updateOrderStatus_def Let_def findOrder_updateOrder orders_updatePaymentStatus
           split: option.splits)

lemma patchOrderStatus_accepts:
  assumes "findOrder i d = Some order"
    and "\<not> fails OrderFindUnique" and "\<not> fails PaymentUpdate" and "\<not> fails OrderUpdate"
    and valid: "status \<in> set (validTransitions (order_status order))"
    and permitted: "status \<in> set (rolePermittedSet (user_role user))"
  shows "\<exists>s. statusName s = status \<and>
           fst (patchOrderStatus fails user i status d) = Inr (order\<lparr>order_status := s\<rparr>) \<and>
           findOrder i (snd (patchOrderStatus fails user i status d)) = Some (order\<lparr>order_status := s\<rparr>)"
proof -
  from valid obtain s where s: "parseStatus status = Some s" "statusName s = status"
    using parseStatus_validTransitions by blast
  from permitted have "user_role user = CHEF \<or> user_role user = CASHIER"
    by (cases "user_role user") auto
  then have auth: "authorizeRole [CHEF, CASHIER] user"
    by (auto simp: authorizeRole_def)
  from permitted have chef: "user_role user = CHEF \<longrightarrow> status \<in> set [''PREPARING'', ''READY'']"
    and cashier: "user_role user = CASHIER \<longrightarrow> status \<in> set [''DELIVERED'', ''CANCELLED'']"
    by auto
  show ?thesis
    using updateOrderStatus_accepts [OF assms(1-4) valid chef cashier s(1)] s(2) auth
    by (auto simp: patchOrderStatus_def)
qed

lemma patchOrderStatus_rejects:
  assumes "findOrder i d = Some order" and "\<not> fails OrderFindUnique"
    and "\<not> (status \<in> set (validTransitions (order_status order)) \<and>
            status \<in> set (rolePermittedSet (user_role user)))"
  shows "\<exists>e. patchOrderStatus fails user i status d = (Inl e, d)"
  using assms
  by (cases "user_role user")
     (auto simp: patchOrderStatus_def authorizeRole_def updateOrderStatus_def)

text \<open>
  Claim C1. For an order of the store, and when no call of the store throws, the
  operation \<open>PATCH /:id/status\<close> (the role check of the route, then \<open>updateOrderStatus\<close>)
  returns an order if and only if the requested status is in
  \<open>validTransitions\<close> of the order's status and in the permitted set of the user's role.
  Then the order returned, and the order of that id in the store, is the order with the
  requested status. Otherwise the operation answers with an error and the store is as it
  was.
\<close>

theorem transition_accepted_iff:
  assumes "findOrder i d = Some order"
    and "\<not> fails OrderFindUnique" and "\<not> fails PaymentUpdate" and "\<not> fails OrderUpdate"
  shows "((\<exists>r d'. patchOrderStatus fails user i status d = (Inr r, d')) \<longleftrightarrow>
            (status \<in> set (validTransitions (order_status order)) \<and>
             status \<in> set (rolePermittedSet (user_role user)))) \<and>
         (status \<in> set (validTransitions (order_status order)) \<and>
          status \<in> set (rolePermittedSet (user_role user)) \<longrightarrow>
            (\<exists>s. statusName s = status \<and>
               fst (patchOrderStatus fails user i status d) = Inr (order\<lparr>order_status := s\<rparr>) \<and>
               findOrder i (snd (patchOrderStatus fails user i status d)) =
                 Some (order\<lparr>order_status := s\<rparr>))) \<and>
         (\<not> (status \<in> set (validTransitions (order_status order)) \<and>
             status \<in> set (rolePermittedSet (user_role user))) \<longrightarrow>
            (\<exists>e. patchOrderStatus fails user i status d = (Inl e, d)))"
proof (cases "status \<in> set (validTransitions (order_status order)) \<and>
              status \<in> set (rolePermittedSet (user_role user))")
  case True
  then have "\<exists>s. statusName s = status \<and>
      fst (patchOrderStatus fails user i status d) = Inr (order\<lparr>order_status := s\<rparr>) \<and>
      findOrder i (snd (patchOrderStatus fails user i status d)) = Some (order\<lparr>order_status := s\<rparr>)"
    using patchOrderStatus_accepts [OF assms] by blast
  moreover from this have "\<exists>r d'. patchOrderStatus fails user i status d = (Inr r, d')"
    by (metis prod.collapse)
  ultimately show ?thesis using True by blast
next
  case False
  then have "\<exists>e. patchOrderStatus fails user i status d = (Inl e, d)"
    using assms(1,2) patchOrderStatus_rejects [of i d order fails status user] by blast
  then show ?thesis using False by auto
qed

theorem transition_accepted_iff_witness:
  "findOrder 1 restaurant = Some order1 \<and>
   (\<exists>r d'. patchOrderStatus no_faults cashier1 1 ''DELIVERED'' restaurant = (Inr r, d')) \<and>
   (\<exists>e. patchOrderStatus no_faults chef1 1 ''DELIVERED'' restaurant = (Inl e, restaurant))"
proof -
  have f: "findOrder 1 restaurant = Some order1"
    by (simp add: findOrder_def restaurant_defs)
  have n: "\<not> no_faults OrderFindUnique" "\<not> no_faults PaymentUpdate" "\<not> no_faults OrderUpdate"
    by (simp_all add: no_faults_def)
  show ?thesis
    using f transition_accepted_iff [OF f n, of cashier1 "''DELIVERED''"]
      transition_accepted_iff [OF f n, of chef1 "''DELIVERED''"]
    by (simp add: order1_def cashier1_def chef1_def)
qed

text \<open>
  Claim C2, as the code has it. The handler makes two writes, each a call of its own:
  first the payment is marked \<open>REFUNDED\<close>, then the status of the order is set. For an
  order with a payment and a cashier's request of \<open>CANCELLED\<close> that the table allows:
  when the write of the payment throws, nothing has changed; when it succeeds and the
  write of the order throws, the answer is an error, the payment is \<open>REFUNDED\<close> and the
  order is as it was; when both succeed, the order is \<open>CANCELLED\<close> and the payment
  \<open>REFUNDED\<close>.
\<close>

theorem cancel_refund_steps:
  assumes "findOrder i d = Some order" and "findPayment i d = Some payment"
    and "''CANCELLED'' \<in> set (validTransitions (order_status order))"
    and "user_role user = CASHIER" and "\<not> fails OrderFindUnique"
  shows "(fails PaymentUpdate \<longrightarrow>
            patchOrderStatus fails user i ''CANCELLED'' d = (Inl ErrorUpdatingOrderStatus, d)) \<and>
         (\<not> fails PaymentUpdate \<and> fails OrderUpdate \<longrightarrow>
            fst (patchOrderStatus fails user i ''CANCELLED'' d) = Inl ErrorUpdatingOrderStatus \<and>
            findPayment i (snd (patchOrderStatus fails user i ''CANCELLED'' d)) =
              Some (payment\<lparr>payment_status := REFUNDED\<rparr>) \<and>
            findOrder i (snd (patchOrderStatus fails user i ''CANCELLED'' d)) = Some order) \<and>
         (\<not> fails PaymentUpdate \<and> \<not> fails OrderUpdate \<longrightarrow>
            fst (patchOrderStatus fails user i ''CANCELLED'' d) =
              Inr (order\<lparr>order_status := CANCELLED\<rparr>) \<and>
            findPayment i (snd (patchOrderStatus fails user i ''CANCELLED'' d)) =
              Some (payment\<lparr>payment_status := REFUNDED\<rparr>) \<and>
            findOrder i (snd (patchOrderStatus fails user i ''CANCELLED'' d)) =
              Some (order\<lparr>order_status := CANCELLED\<rparr>))"
  using assms
  by (simp add: patchOrderStatus_def authorizeRole_def updateOrderStatus_def Let_def
      parseStatus_CANCELLED findPayment_updatePaymentStatus findOrder_updatePaymentStatus
      findPayment_updateOrder findOrder_updateOrder orders_updatePaymentStatus)

theorem cancel_refund_steps_witness:
  "findOrder 1 restaurant = Some order1 \<and> findPayment 1 restaurant = Some payment1 \<and>
   fst (patchOrderStatus no_faults cashier1 1 ''CANCELLED'' restaurant) =
     Inr (order1\<lparr>order_status := CANCELLED\<rparr>) \<and>
   findPayment 1 (snd (patchOrderStatus no_faults cashier1 1 ''CANCELLED'' restaurant)) =
     Some (payment1\<lparr>payment_status := REFUNDED\<rparr>) \<and>
   findOrder 1 (snd (patchOrderStatus no_faults cashier1 1 ''CANCELLED'' restaurant)) =
     Some (order1\<lparr>order_status := CANCELLED\<rparr>)"
proof -
  have f: "findOrder 1 restaurant = Some order1"
    by (simp add: findOrder_def restaurant_defs)
  have p: "findPayment 1 restaurant = Some payment1"
    by (simp add: findPayment_def restaurant_defs)
  have v: "''CANCELLED'' \<in> set (validTransitions (order_status order1))"
    by (simp add: order1_def)
  have r: "user_role cashier1 = CASHIER" by (simp add: cashier1_def)
  have n: "\<not> no_faults OrderFindUnique" by (simp add: no_faults_def)
  show ?thesis
    using f p cancel_refund_steps [where fails = no_faults, OF f p v r n]
    by (simp add: no_faults_def)
qed

text \<open>
  Claim C2 as stated fails: order 1 is \<open>READY\<close> and its payment \<open>COMPLETED\<close>; the
  cashier of its branch requests \<open>CANCELLED\<close>, and the write of the order throws. The
  answer is the error of the \<open>catch\<close> block, the payment is \<open>REFUNDED\<close>, and the order
  is still \<open>READY\<close>.
\<close>

theorem cancel_not_atomic_counterexample:
  "map_option order_status (findOrder 1 restaurant) = Some READY \<and>
   map_option payment_status (findPayment 1 restaurant) = Some COMPLETED \<and>
   fst (patchOrderStatus order_update_fails cashier1 1 ''CANCELLED'' restaurant) =
     Inl ErrorUpdatingOrderStatus \<and>
   map_option order_status
     (findOrder 1 (snd (patchOrderStatus order_update_fails cashier1 1 ''CANCELLED'' restaurant))) =
     Some READY \<and>
   map_option payment_status
     (findPayment 1 (snd (patchOrderStatus order_update_fails cashier1 1 ''CANCELLED'' restaurant))) =
     Some REFUNDED"
  by (simp add: patchOrderStatus_def authorizeRole_def updateOrderStatus_def Let_def
      findOrder_def findPayment_def updatePaymentStatus_def restaurant_defs
      cashier1_def order_update_fails_def)

text \<open>
  Claim C3 at a failing input. Neither \<open>updateOrderStatus\<close> nor \<open>deleteOrder\<close> reads
  the branch of the user or of the order. The cashier of branch 1 cancels order 2, an
  order of branch 2: the request is accepted and the order is \<open>CANCELLED\<close>. The manager
  of branch 2 asks to delete order 1, a paid order of branch 1: the request is not refused
  for its branch, the payment of order 1 is marked \<open>REFUNDED\<close>, and the answer is the 500
  of the removal that the database refuses.
\<close>

theorem other_branch_order_changed:
  "user_branchId cashier1 = Some 1 \<and>
   findOrder 2 restaurant = Some order2 \<and> order_branchId order2 = 2 \<and>
   patchOrderStatus no_faults cashier1 2 ''CANCELLED'' restaurant =
     (Inr (order2\<lparr>order_status := CANCELLED\<rparr>), updateOrder 2 CANCELLED restaurant) \<and>
   user_branchId manager2 = Some 2 \<and>
   findOrder 1 restaurant = Some order1 \<and> order_branchId order1 = 1 \<and>
   findPayment 1 restaurant = Some payment1 \<and> payment_status payment1 = COMPLETED \<and>
   deleteOrderRoute no_faults manager2 1 restaurant =
     (Inl ErrorDeletingOrder, updatePaymentStatus 1 REFUNDED restaurant) \<and>
   findPayment 1 (updatePaymentStatus 1 REFUNDED restaurant) =
     Some (payment1\<lparr>payment_status := REFUNDED\<rparr>) \<and>
   statusCode ErrorDeletingOrder = 500"
  by (simp add: patchOrderStatus_def authorizeRole_def updateOrderStatus_def Let_def
      deleteOrderRoute_def deleteOrder_def orderReferenced_def parseStatus_CANCELLED
      findOrder_def findPayment_def updatePaymentStatus_def restaurant_defs
      cashier1_def manager2_def no_faults_def)

lemma patchOrderStatus_role_403:
  "status \<notin> set (rolePermittedSet (user_role user)) \<Longrightarrow>
   patchOrderStatus fails user i status d =
     (Inl (if user_role user = CHEF then ChefsOnlyPreparingOrReady
           else if user_role user = CASHIER then CashiersOnlyDeliveredOrCancelled
           else AccessDenied), d)"
  by (cases "user_role user")
     (auto simp: patchOrderStatus_def authorizeRole_def updateOrderStatus_def)

text \<open>
  Claim C4, as the code has it. A request to change the status of an order that is
  \<open>DELIVERED\<close> or \<open>CANCELLED\<close> is answered with an error, for every user, every
  requested status and every behaviour of the store, by the handler and by the route, and
  the store is as it was. The error is the one of the transition table (\<open>Cannot
  transition from ... to ...\<close>) when the requested status is in the permitted set of the
  user's role and the read of the order does not throw. When the requested status is not
  in the permitted set of the user's role, the checks of the role come first and the
  error is a 403: the chef's, the cashier's, or for every other role the one of the
  route.
\<close>

theorem terminal_rejected:
  assumes "findOrder i d = Some order"
    and "order_status order = DELIVERED \<or> order_status order = CANCELLED"
  shows "(\<exists>e. updateOrderStatus fails user i status d = (Inl e, d)) \<and>
         (\<exists>e. patchOrderStatus fails user i status d = (Inl e, d)) \<and>
         (status \<in> set (rolePermittedSet (user_role user)) \<and> \<not> fails OrderFindUnique \<longrightarrow>
            patchOrderStatus fails user i status d =
              (Inl (CannotTransition (order_status order) status), d)) \<and>
         (status \<notin> set (rolePermittedSet (user_role user)) \<longrightarrow>
            patchOrderStatus fails user i status d =
              (Inl (if user_role user = CHEF then ChefsOnlyPreparingOrReady
                    else if user_role user = CASHIER then CashiersOnlyDeliveredOrCancelled
                    else AccessDenied), d) \<and>
            statusCode (if user_role user = CHEF then ChefsOnlyPreparingOrReady
                        else if user_role user = CASHIER then CashiersOnlyDeliveredOrCancelled
                        else AccessDenied) = 403)"
proof -
  have "(\<exists>e. updateOrderStatus fails user i status d = (Inl e, d)) \<and>
         (\<exists>e. patchOrderStatus fails user i status d = (Inl e, d)) \<and>
         (status \<in> set (rolePermittedSet (user_role user)) \<and> \<not> fails OrderFindUnique \<longrightarrow>
            patchOrderStatus fails user i status d =
              (Inl (CannotTransition (order_status order) status), d))"
    using assms
    by (cases "user_role user")
       (auto simp: patchOrderStatus_def authorizeRole_def updateOrderStatus_def)
  moreover have "statusCode (if user_role user = CHEF then ChefsOnlyPreparingOrReady
                        else if user_role user = CASHIER then CashiersOnlyDeliveredOrCancelled
                        else AccessDenied) = 403"
    by simp
  ultimately show ?thesis using patchOrderStatus_role_403 [of status user fails i d] by blast
qed

theorem terminal_rejected_witness:
  "findOrder 3 restaurant = Some order3 \<and>
   patchOrderStatus no_faults cashier1 3 ''CANCELLED'' restaurant =
     (Inl (CannotTransition DELIVERED ''CANCELLED''), restaurant) \<and>
   patchOrderStatus no_faults cashier1 3 ''READY'' restaurant =
     (Inl CashiersOnlyDeliveredOrCancelled, restaurant) \<and>
   patchOrderStatus no_faults manager1 3 ''CANCELLED'' restaurant = (Inl AccessDenied, restaurant)"
proof -
  have f: "findOrder 3 restaurant = Some order3"
    by (simp add: findOrder_def restaurant_defs)
  have t: "order_status order3 = DELIVERED \<or> order_status order3 = CANCELLED"
    by (simp add: order3_def)
  show ?thesis
    using f terminal_rejected [OF f t, of no_faults cashier1 "''CANCELLED''"]
      terminal_rejected [OF f t, of no_faults cashier1 "''READY''"]
      terminal_rejected [OF f t, of no_faults manager1 "''CANCELLED''"]
    by (simp add: no_faults_def cashier1_def manager1_def order3_def)
qed

text \<open>
  Claim C4 as stated fails: order 3 is \<open>DELIVERED\<close>, and a chef requests \<open>CANCELLED\<close>.
  The answer is the 403 of the chef's role check, not the error of the transition table.
\<close>

theorem terminal_rejected_counterexample:
  "findOrder 3 restaurant = Some order3 \<and> order_status order3 = DELIVERED \<and>
   patchOrderStatus no_faults chef1 3 ''CANCELLED'' restaurant =
     (Inl ChefsOnlyPreparingOrReady, restaurant) \<and>
   ChefsOnlyPreparingOrReady \<noteq> CannotTransition DELIVERED ''CANCELLED'' \<and>
   statusCode ChefsOnlyPreparingOrReady = 403 \<and>
   statusCode (CannotTransition DELIVERED ''CANCELLED'') = 400"
  by (simp add: patchOrderStatus_def authorizeRole_def updateOrderStatus_def
      findOrder_def restaurant_defs chef1_def no_faults_def)

section \<open>Deleting an order: the rules\<close>

lemma deleteOrder_unauthorized:
  "\<not> fails OrderFindUnique \<Longrightarrow> user_role user \<noteq> ADMIN \<Longrightarrow> user_role user \<noteq> BRANCH_MANAGER \<Longrightarrow>
   deleteOrder fails user i d = (Inl UnauthorizedToDelete, d)"
  by (simp add: deleteOrder_def)

lemma deleteOrder_delivered:
  "\<not> fails OrderFindUnique \<Longrightarrow> user_role user = ADMIN \<or> user_role user = BRANCH_MANAGER \<Longrightarrow>
   findOrder i d = Some order \<Longrightarrow> order_status order = DELIVERED \<Longrightarrow>
   deleteOrder fails user i d = (Inl CannotDeleteDelivered, d)"
  by (auto simp add: deleteOrder_def)

lemma orderReferenced_refunded:
  "findPayment i d = Some payment \<Longrightarrow>
   orderReferenced i (updatePaymentStatus (payment_id payment) REFUNDED d)"
  by (simp add: orderReferenced_def findPayment_updatePaymentStatus)

lemma deleteOrder_paid:
  "\<not> fails OrderFindUnique \<Longrightarrow> user_role user = ADMIN \<or> user_role user = BRANCH_MANAGER \<Longrightarrow>
   findOrder i d = Some order \<Longrightarrow> order_status order \<noteq> DELIVERED \<Longrightarrow>
   findPayment i d = Some payment \<Longrightarrow> \<not> fails PaymentUpdate \<Longrightarrow>
   deleteOrder fails user i d =
     (Inl ErrorDeletingOrder, updatePaymentStatus (payment_id payment) REFUNDED d)"
  by (auto simp add: deleteOrder_def Let_def orderReferenced_refunded)

lemma deleteOrder_unpaid:
  "\<not> fails OrderFindUnique \<Longrightarrow> user_role user = ADMIN \<or> user_role user = BRANCH_MANAGER \<Longrightarrow>
   findOrder i d = Some order \<Longrightarrow> order_status order \<noteq> DELIVERED \<Longrightarrow>
   findPayment i d = None \<Longrightarrow>
   deleteOrder fails user i d =
     (if fails OrderDelete \<or> order_items order \<noteq> [] then (Inl ErrorDeletingOrder, d)
      else (Inr (), deleteOrderRow i d))"
  by (auto simp add: deleteOrder_def Let_def orderReferenced_def)

text \<open>
  Claim C9 at a failing input. When the read of the order does not throw, a user who is
  neither \<open>ADMIN\<close> nor \<open>BRANCH_MANAGER\<close> is refused, and for these two roles an order
  that is \<open>DELIVERED\<close> is refused with \<open>Cannot delete delivered orders\<close>, the store as
  it was: so far the code does what the claim says. For an order of another status that
  has a payment, the handler marks the payment \<open>REFUNDED\<close> and then asks the store to
  remove the order, which the database refuses while the payment refers to the order:
  the answer is the 500 of the \<open>catch\<close> block, the payment is \<open>REFUNDED\<close>, and the
  order is still in the store. An order is removed only when it has no payment and no
  item. The witness is the manager of branch 1 deleting order 1, which is \<open>READY\<close> and
  paid.
\<close>

theorem deleteOrder_keeps_paid_order:
  assumes "\<not> fails OrderFindUnique"
  shows "(user_role user \<noteq> ADMIN \<and> user_role user \<noteq> BRANCH_MANAGER \<longrightarrow>
            deleteOrder fails user i d = (Inl UnauthorizedToDelete, d)) \<and>
         ((user_role user = ADMIN \<or> user_role user = BRANCH_MANAGER) \<and>
          findOrder i d = Some order \<and> order_status order = DELIVERED \<longrightarrow>
            deleteOrder fails user i d = (Inl CannotDeleteDelivered, d)) \<and>
         ((user_role user = ADMIN \<or> user_role user = BRANCH_MANAGER) \<and>
          findOrder i d = Some order \<and> order_status order \<noteq> DELIVERED \<and>
          findPayment i d = Some payment \<and> \<not> fails PaymentUpdate \<longrightarrow>
            fst (deleteOrder fails user i d) = Inl ErrorDeletingOrder \<and>
            findPayment i (snd (deleteOrder fails user i d)) =
              Some (payment\<lparr>payment_status := REFUNDED\<rparr>) \<and>
            findOrder i (snd (deleteOrder fails user i d)) = Some order) \<and>
         ((user_role user = ADMIN \<or> user_role user = BRANCH_MANAGER) \<and>
          findOrder i d = Some order \<and> order_status order \<noteq> DELIVERED \<and>
          findPayment i d = None \<longrightarrow>
            deleteOrder fails user i d =
              (if fails OrderDelete \<or> order_items order \<noteq> [] then (Inl ErrorDeletingOrder, d)
               else (Inr (), deleteOrderRow i d)))"
proof (intro conjI impI)
  assume "user_role user \<noteq> ADMIN \<and> user_role user \<noteq> BRANCH_MANAGER"
  then show "deleteOrder fails user i d = (Inl UnauthorizedToDelete, d)"
    using assms by (simp add: deleteOrder_unauthorized)
next
  assume "(user_role user = ADMIN \<or> user_role user = BRANCH_MANAGER) \<and>
          findOrder i d = Some order \<and> order_status order = DELIVERED"
  then show "deleteOrder fails user i d = (Inl CannotDeleteDelivered, d)"
    using assms deleteOrder_delivered [of fails user i d order] by blast
next
  assume a: "(user_role user = ADMIN \<or> user_role user = BRANCH_MANAGER) \<and>
          findOrder i d = Some order \<and> order_status order \<noteq> DELIVERED \<and>
          findPayment i d = Some payment \<and> \<not> fails PaymentUpdate"
  then have eq: "deleteOrder fails user i d =
     (Inl ErrorDeletingOrder, updatePaymentStatus (payment_id payment) REFUNDED d)"
    using assms deleteOrder_paid [of fails user i d order payment] by blast
  from a have p: "findPayment i d = Some payment" and f: "findOrder i d = Some order"
    by simp_all
  show "fst (deleteOrder fails user i d) = Inl ErrorDeletingOrder"
    by (simp add: eq)
  show "findPayment i (snd (deleteOrder fails user i d)) =
          Some (payment\<lparr>payment_status := REFUNDED\<rparr>)"
    by (simp add: eq findPayment_updatePaymentStatus [OF p])
  show "findOrder i (snd (deleteOrder fails user i d)) = Some order"
    by (simp add: eq findOrder_updatePaymentStatus f)
next
  assume "(user_role user = ADMIN \<or> user_role user = BRANCH_MANAGER) \<and>
          findOrder i d = Some order \<and> order_status order \<noteq> DELIVERED \<and>
          findPayment i d = None"
  then show "deleteOrder fails user i d =
              (if fails OrderDelete \<or> order_items order \<noteq> [] then (Inl ErrorDeletingOrder, d)
               else (Inr (), deleteOrderRow i d))"
    using assms deleteOrder_unpaid [of fails user i d order] by blast
qed

theorem deleteOrder_keeps_paid_order_witness:
  "findOrder 1 restaurant = Some order1 \<and> findPayment 1 restaurant = Some payment1 \<and>
   order_status order1 = READY \<and> user_role manager1 = BRANCH_MANAGER \<and>
   fst (deleteOrder no_faults manager1 1 restaurant) = Inl ErrorDeletingOrder \<and>
   statusCode ErrorDeletingOrder = 500 \<and>
   findOrder 1 (snd (deleteOrder no_faults manager1 1 restaurant)) = Some order1 \<and>
   findPayment 1 (snd (deleteOrder no_faults manager1 1 restaurant)) =
     Some (payment1\<lparr>payment_status := REFUNDED\<rparr>)"
proof -
  have n: "\<not> no_faults OrderFindUnique" "\<not> no_faults PaymentUpdate"
    by (simp_all add: no_faults_def)
  have r: "user_role manager1 = BRANCH_MANAGER"
    by (simp add: manager1_def)
  have f: "findOrder 1 restaurant = Some order1"
    by (simp add: findOrder_def restaurant_defs)
  have p: "findPayment 1 restaurant = Some payment1"
    by (simp add: findPayment_def restaurant_defs)
  have s: "order_status order1 = READY" "order_status order1 \<noteq> DELIVERED"
    by (simp_all add: order1_def)
  show ?thesis
    using deleteOrder_keeps_paid_order [where fails = no_faults, OF n(1),
        of manager1 1 restaurant order1 payment1]
      n r f p s
    by simp
qed

section \<open>Listing orders: staff without a branch\<close>

lemma orderWhere_staff_without_branch:
  assumes "user_role user = CHEF \<or> user_role user = CASHIER"
    and "user_branchId user = None \<or> user_branchId user = Some 0"
  shows "orderWhere user q =
           \<lparr>where_branchId = None, where_customerId = None,
            where_status = (if truthy_string (q_status q) then q_status q else None)\<rparr>"
  using assms
  by (auto simp: orderWhere_def roleFilter_def queryFilter_def truthy_number_def)

lemma filter_matchesWhere_all:
  "filter (matchesWhere \<lparr>where_branchId = None, where_customerId = None, where_status = w\<rparr> None) rs = rs"
  by (simp add: matchesWhere_def)

lemma filter_matchesWhere_status:
  "filter (matchesWhere \<lparr>where_branchId = None, where_customerId = None, where_status = w\<rparr> (Some st)) rs =
     filter (\<lambda>r. order_status r = st) rs"
  by (induction rs) (simp_all add: matchesWhere_def)

text \<open>
  Claim C10. For a \<open>CHEF\<close> or a \<open>CASHIER\<close> whose \<open>branchId\<close> is absent or \<open>0\<close>, the
  clause of the query has no \<open>branchId\<close> (and no \<open>customerId\<close>): with no status
  filter, \<open>getOrders\<close> returns every order of the store, of every branch; with a status
  filter, every order of that status. It is not an error and not the empty list.
\<close>

theorem staff_without_branch_sees_all:
  assumes "user_role user = CHEF \<or> user_role user = CASHIER"
    and "user_branchId user = None \<or> user_branchId user = Some 0"
    and "\<not> fails OrderFindMany"
  shows "where_branchId (orderWhere user q) = None \<and>
         where_customerId (orderWhere user q) = None \<and>
         (\<not> truthy_string (q_status q) \<longrightarrow> getOrders fails user q d = Inr (orders d)) \<and>
         (\<forall>s st. q_status q = Some s \<and> s \<noteq> [] \<and> parseStatus s = Some st \<longrightarrow>
            getOrders fails user q d = Inr (filter (\<lambda>r. order_status r = st) (orders d)))"
proof -
  note w = orderWhere_staff_without_branch [OF assms(1,2), of q]
  have "\<not> truthy_string (q_status q) \<Longrightarrow> getOrders fails user q d = Inr (orders d)"
    using assms(3) by (simp add: getOrders_def w filter_matchesWhere_all)
  moreover have "getOrders fails user q d = Inr (filter (\<lambda>r. order_status r = st) (orders d))"
    if "q_status q = Some s" "s \<noteq> []" "parseStatus s = Some st" for s st
    using assms(3) that
    by (simp add: getOrders_def w truthy_string_def filter_matchesWhere_status)
  ultimately show ?thesis by (simp add: w)
qed

theorem staff_without_branch_sees_all_witness:
  "getOrders no_faults chef_unassigned
     \<lparr>q_branchId = None, q_status = None, q_customerId = None\<rparr> restaurant =
     Inr [order1, order2, order3] \<and>
   map order_branchId [order1, order2, order3] = [1, 2, 1]"
proof -
  have r: "user_role chef_unassigned = CHEF \<or> user_role chef_unassigned = CASHIER"
    and b: "user_branchId chef_unassigned = None \<or> user_branchId chef_unassigned = Some 0"
    by (simp_all add: chef_unassigned_def)
  have n: "\<not> no_faults OrderFindMany" by (simp add: no_faults_def)
  have t: "\<not> truthy_string (q_status \<lparr>q_branchId = None, q_status = None, q_customerId = None\<rparr>)"
    by (simp add: truthy_string_def)
  have o: "orders restaurant = [order1, order2, order3]" by (simp add: restaurant_def)
  have m: "map order_branchId [order1, order2, order3] = [1, 2, 1]"
    by (simp add: order1_def order2_def order3_def)
  show ?thesis
    using staff_without_branch_sees_all [where fails = no_faults, OF r b n,
        of "\<lparr>q_branchId = None, q_status = None, q_customerId = None\<rparr>" restaurant] t o m
    by simp
qed

section \<open>Payments: the rules\<close>









section \<open>Creating an order: items, total and customer\<close>

lemma findMenuItem_id: "findMenuItem i d = Some m \<Longrightarrow> menuItem_id m = i"
  by (auto simp: findMenuItem_def find_Some_iff)

lemma processItems_result:
  "processItems fails d items orderItems totalAmount = Inr (result, amount) \<Longrightarrow>
   \<exists>new. result = orderItems @ new \<and>
         amount = foldl plus_double totalAmount (map lineAmount new) \<and>
         list_all2 (pricedFromCatalog d) items new \<and>
         (\<forall>it\<in>set new. item_subtotal it = lineAmount it)"
proof (induction items arbitrary: orderItems totalAmount)
  case Nil
  then show ?case by simp
next
  case (Cons item rest)
  from Cons.prems obtain menuItem where m: "findMenuItem (req_menuItemId item) d = Some menuItem"
      "menuItem_isAvailable menuItem" "\<not> fails MenuItemFindUnique"
    by (auto split: if_splits option.splits)
  define orderItem where "orderItem =
     \<lparr>item_menuItemId = menuItem_id menuItem, item_quantity = req_quantity item,
      item_unitPrice = menuItem_price menuItem,
      item_subtotal = times_double (menuItem_price menuItem) (double_of_int (req_quantity item))\<rparr>"
  have l: "lineAmount orderItem = times_double (menuItem_price menuItem) (double_of_int (req_quantity item))"
    "item_subtotal orderItem = lineAmount orderItem"
    by (simp_all add: lineAmount_def orderItem_def)
  from Cons.prems m have "processItems fails d rest (orderItems @ [orderItem])
      (plus_double totalAmount (lineAmount orderItem)) = Inr (result, amount)"
    by (simp add: orderItem_def lineAmount_def)
  from Cons.IH [OF this] obtain new where new: "result = (orderItems @ [orderItem]) @ new"
      "amount = foldl plus_double (plus_double totalAmount (lineAmount orderItem)) (map lineAmount new)"
      "list_all2 (pricedFromCatalog d) rest new"
      "\<forall>it\<in>set new. item_subtotal it = lineAmount it"
    by blast
  have p: "pricedFromCatalog d item orderItem"
    using m findMenuItem_id [OF m(1)] by (simp add: pricedFromCatalog_def orderItem_def)
  have "result = orderItems @ (orderItem # new) \<and>
        amount = foldl plus_double totalAmount (map lineAmount (orderItem # new)) \<and>
        list_all2 (pricedFromCatalog d) (item # rest) (orderItem # new) \<and>
        (\<forall>it\<in>set (orderItem # new). item_subtotal it = lineAmount it)"
    using new p l(2) by simp
  then show ?case by blast
qed

lemma processItems_first_failure:
  "\<not> fails MenuItemFindUnique \<Longrightarrow> List.find (notOrderable d) items = Some item \<Longrightarrow>
   processItems fails d items orderItems totalAmount = Inl (itemError d item)"
  by (induction items arbitrary: orderItems totalAmount)
     (auto simp: notOrderable_def itemError_def split: option.splits if_splits)

lemma processItems_succeeds:
  "\<not> fails MenuItemFindUnique \<Longrightarrow> List.find (notOrderable d) items = None \<Longrightarrow>
   \<exists>r. processItems fails d items orderItems totalAmount = Inr r"
  by (induction items arbitrary: orderItems totalAmount)
     (auto simp: notOrderable_def split: option.splits if_splits)

lemma createOrder_error_unchanged:
  "createOrder fails user body d = (Inl e, d') \<Longrightarrow> d' = d"
  by (auto simp: createOrder_def Let_def split: sum.splits option.splits if_splits)

lemma createOrder_success:
  assumes "createOrder fails user body d = (Inr order, d')"
  shows "\<exists>customer b orderItems totalAmount.
           actualCustomerId user (body_customerId body) = Inr customer \<and>
           processItems fails d (body_items body) [] (Num 0) = Inr (orderItems, totalAmount) \<and>
           order_status order = PENDING \<and> order_totalAmount order = totalAmount \<and>
           order_customerId order = customer \<and> order_branchId order = b \<and>
           order_items order = orderItems \<and>
           assignBranch fails body d = Inr (Some b) \<and>
           orders d' = orders d @ [order]"
  using assms
  by (auto simp: createOrder_def Let_def split: sum.splits option.splits if_splits)

lemma createOrder_returns:
  assumes "user_id user \<noteq> 0" and "actualCustomerId user (body_customerId body) = Inr customer"
    and "assignBranch fails body d = Inr (Some b)" and "b \<noteq> 0"
    and "\<not> fails MenuItemFindUnique" and "body_items body \<noteq> []"
    and "List.find (notOrderable d) (body_items body) = None" and "\<not> fails OrderCreate"
  shows "\<exists>order d'. createOrder fails user body d = (Inr order, d') \<and> order_branchId order = b"
proof -
  from processItems_succeeds [where fails = fails and orderItems = "[]" and totalAmount = "Num 0",
      OF assms(5) assms(7)]
  obtain orderItems totalAmount where
    "processItems fails d (body_items body) [] (Num 0) = Inr (orderItems, totalAmount)"
    by (metis surj_pair)
  then show ?thesis using assms by (simp add: createOrder_def Let_def)
qed

lemma actualCustomerId_CUSTOMER:
  "user_role user = CUSTOMER \<Longrightarrow> actualCustomerId user customerId = Inr c \<Longrightarrow> c = user_id user"
  by (simp add: actualCustomerId_def)

lemma assignBranch_elm_street: "assignBranch no_faults elm_street_order restaurant = Inr (Some 1)"
  by code_simp

lemma ten_times_two:
  "times_double (Num 10) (double_of_int 2) = Num 20" "plus_double (Num 0) (Num 20) = Num 20"
  by code_simp+

lemma a_tenth_times_three:
  "plus_double (Num 0) (times_double (round64 (1 / 10)) (double_of_int 3)) =
     Num (5404319552844596 / 2 ^ 54)"
  by code_simp

lemma createOrder_elm_street:
  "createOrder no_faults customer7 elm_street_order restaurant =
     (Inr \<lparr>order_id = 4, order_status = PENDING, order_totalAmount = Num 20,
           order_deliveryAddress = Some ''42 Elm Street'', order_customerId = 7,
           order_branchId = 1, order_items = [two_steaks]\<rparr>,
      restaurant\<lparr>orders := orders restaurant @
          [\<lparr>order_id = 4, order_status = PENDING, order_totalAmount = Num 20,
            order_deliveryAddress = Some ''42 Elm Street'', order_customerId = 7,
            order_branchId = 1, order_items = [two_steaks]\<rparr>],
        order_seq := 5\<rparr>)"
proof -
  have c: "actualCustomerId customer7 (body_customerId elm_street_order) = Inr 7"
    by (simp add: actualCustomerId_def customer7_def)
  have p: "processItems no_faults restaurant (body_items elm_street_order) [] (Num 0) =
      Inr ([two_steaks], Num 20)"
    by (simp add: findMenuItem_def elm_street_order_def restaurant_def steak_def soup_def
        two_steaks_def no_faults_def ten_times_two del: plus_double.simps times_double.simps)
  have i: "body_items elm_street_order \<noteq> []" "user_id customer7 \<noteq> 0"
    "body_deliveryAddress elm_street_order = Some ''42 Elm Street''"
    "\<not> no_faults OrderCreate" "order_seq restaurant = 4"
    by (simp_all add: elm_street_order_def customer7_def no_faults_def restaurant_def)
  show ?thesis
    by (simp add: createOrder_def Let_def c p i truthy_string_def assignBranch_elm_street)
qed

lemma createOrder_mints:
  "fst (createOrder no_faults customer7 mint_order restaurant) =
     Inr \<lparr>order_id = 4, order_status = PENDING,
          order_totalAmount = plus_double (Num 0) (times_double (round64 (1 / 10)) (double_of_int 3)),
          order_deliveryAddress = None, order_customerId = 7, order_branchId = 1,
          order_items =
            [\<lparr>item_menuItemId = 6, item_quantity = 3, item_unitPrice = round64 (1 / 10),
              item_subtotal = times_double (round64 (1 / 10)) (double_of_int 3)\<rparr>]\<rparr>"
proof -
  have c: "actualCustomerId customer7 (body_customerId mint_order) = Inr 7"
    by (simp add: actualCustomerId_def customer7_def)
  have b: "assignBranch no_faults mint_order restaurant = Inr (Some 1)"
    by (simp add: assignBranch_def mint_order_def truthy_number_def)
  have p: "processItems no_faults restaurant (body_items mint_order) [] (Num 0) =
      Inr ([\<lparr>item_menuItemId = 6, item_quantity = 3, item_unitPrice = round64 (1 / 10),
              item_subtotal = times_double (round64 (1 / 10)) (double_of_int 3)\<rparr>],
           plus_double (Num 0) (times_double (round64 (1 / 10)) (double_of_int 3)))"
    by (simp add: findMenuItem_def mint_order_def restaurant_def steak_def soup_def mint_def
        no_faults_def del: plus_double.simps times_double.simps)
  have i: "body_items mint_order \<noteq> []" "user_id customer7 \<noteq> 0"
    "body_deliveryAddress mint_order = None"
    "\<not> no_faults OrderCreate" "order_seq restaurant = 4"
    by (simp_all add: mint_order_def customer7_def no_faults_def restaurant_def)
  show ?thesis
    by (simp add: createOrder_def Let_def c p i b truthy_string_def
        del: plus_double.simps times_double.simps)
qed

text \<open>
  Claim C5. An order that \<open>createOrder\<close> returns has status \<open>PENDING\<close>; its total is
  the sum over its items of unit price times quantity, the products and the sum computed
  as the code computes them (binary64, added from \<open>0\<close> in the order of the items), and
  the subtotal of every item is its unit price times its quantity; its items are, one for
  each requested item and in the same order, the requested menu item and quantity at the
  price the catalog has for that menu item when the order is created; for a \<open>CUSTOMER\<close>
  its customer is the user, whatever \<open>customerId\<close> the body carries; and it is the row
  added to the orders of the store.

  The witness is customer 7 ordering two steaks at 10.00 (total 20, status \<open>PENDING\<close>,
  customer 7 although the body says 99), and three mints at 0.1, whose total is the
  binary64 value that JavaScript prints as 0.30000000000000004.
\<close>

theorem createOrder_result:
  assumes "createOrder fails user body d = (Inr order, d')"
  shows "order_status order = PENDING \<and>
         order_totalAmount order = sum_double (map lineAmount (order_items order)) \<and>
         (\<forall>it\<in>set (order_items order). item_subtotal it = lineAmount it) \<and>
         list_all2 (pricedFromCatalog d) (body_items body) (order_items order) \<and>
         (user_role user = CUSTOMER \<longrightarrow> order_customerId order = user_id user) \<and>
         orders d' = orders d @ [order]"
proof -
  from createOrder_success [OF assms] obtain customer orderItems totalAmount where
    c: "actualCustomerId user (body_customerId body) = Inr customer"
    and p: "processItems fails d (body_items body) [] (Num 0) = Inr (orderItems, totalAmount)"
    and o: "order_status order = PENDING" "order_totalAmount order = totalAmount"
       "order_customerId order = customer" "order_items order = orderItems"
       "orders d' = orders d @ [order]"
    by blast
  from processItems_result [OF p]
  have "totalAmount = sum_double (map lineAmount orderItems)"
    and "list_all2 (pricedFromCatalog d) (body_items body) orderItems"
    and "\<forall>it\<in>set orderItems. item_subtotal it = lineAmount it"
    by (simp_all add: sum_double_def)
  moreover have "user_role user = CUSTOMER \<longrightarrow> customer = user_id user"
    using c actualCustomerId_CUSTOMER by blast
  ultimately show ?thesis using o by simp
qed


theorem createOrder_result_witness:
  "fst (createOrder no_faults customer7 elm_street_order restaurant) =
     Inr \<lparr>order_id = 4, order_status = PENDING, order_totalAmount = Num 20,
          order_deliveryAddress = Some ''42 Elm Street'', order_customerId = 7,
          order_branchId = 1, order_items = [two_steaks]\<rparr> \<and>
   user_id customer7 = 7 \<and> body_customerId elm_street_order = Some 99 \<and>
   sum_double (map lineAmount [two_steaks]) = Num 20 \<and>
   pricedFromCatalog restaurant \<lparr>req_menuItemId = 3, req_quantity = 2\<rparr> two_steaks \<and>
   fst (createOrder no_faults customer7 mint_order restaurant) =
     Inr \<lparr>order_id = 4, order_status = PENDING,
          order_totalAmount = plus_double (Num 0) (times_double (round64 (1 / 10)) (double_of_int 3)),
          order_deliveryAddress = None, order_customerId = 7, order_branchId = 1,
          order_items =
            [\<lparr>item_menuItemId = 6, item_quantity = 3, item_unitPrice = round64 (1 / 10),
              item_subtotal = times_double (round64 (1 / 10)) (double_of_int 3)\<rparr>]\<rparr> \<and>
   plus_double (Num 0) (times_double (round64 (1 / 10)) (double_of_int 3)) =
     Num (5404319552844596 / 2 ^ 54)"
proof -
  have u: "user_id customer7 = 7" "body_customerId elm_street_order = Some 99"
    "body_items elm_street_order = [\<lparr>req_menuItemId = 3, req_quantity = 2\<rparr>]"
    by (simp_all add: customer7_def elm_street_order_def)
  have w: "fst (createOrder no_faults customer7 elm_street_order restaurant) =
     Inr \<lparr>order_id = 4, order_status = PENDING, order_totalAmount = Num 20,
          order_deliveryAddress = Some ''42 Elm Street'', order_customerId = 7,
          order_branchId = 1, order_items = [two_steaks]\<rparr> \<and>
   user_id customer7 = 7 \<and> body_customerId elm_street_order = Some 99 \<and>
   sum_double (map lineAmount [two_steaks]) = Num 20 \<and>
   pricedFromCatalog restaurant \<lparr>req_menuItemId = 3, req_quantity = 2\<rparr> two_steaks"
    using createOrder_result [OF createOrder_elm_street] u
    by (simp add: createOrder_elm_street)
  show ?thesis using w createOrder_mints a_tenth_times_three by blast
qed

text \<open>
  Claim C8. When the request reaches the loop over the items (the user is authenticated
  and of a role that may order, a branch is given or found) and the catalog can be read:
  if some requested item cannot be ordered, the answer is the error of the first such
  item in the order of the request, \<open>Menu item ... not found\<close> when the catalog has no
  menu item of that id and \<open>Menu item ... is not available\<close> when its menu item is not
  available; if every requested item can be ordered (and there is at least one), and the
  store accepts the row, an order is returned. Whatever the error of \<open>createOrder\<close>, the
  store is as it was: no order and no order item is written.
\<close>

theorem item_failure_aborts:
  assumes "user_id user \<noteq> 0" and "actualCustomerId user (body_customerId body) = Inr customer"
    and "assignBranch fails body d = Inr (Some b)" and "b \<noteq> 0"
    and "\<not> fails MenuItemFindUnique"
  shows "(\<forall>item. List.find (notOrderable d) (body_items body) = Some item \<and>
            findMenuItem (req_menuItemId item) d = None \<longrightarrow>
            createOrder fails user body d = (Inl (MenuItemNotFound (req_menuItemId item)), d)) \<and>
         (\<forall>item menuItem. List.find (notOrderable d) (body_items body) = Some item \<and>
            findMenuItem (req_menuItemId item) d = Some menuItem \<longrightarrow>
            \<not> menuItem_isAvailable menuItem \<and>
            createOrder fails user body d = (Inl (MenuItemNotAvailable (menuItem_name menuItem)), d)) \<and>
         (body_items body \<noteq> [] \<and> List.find (notOrderable d) (body_items body) = None \<and>
          \<not> fails OrderCreate \<longrightarrow>
            (\<exists>order d'. createOrder fails user body d = (Inr order, d'))) \<and>
         (\<forall>e d'. createOrder fails user body d = (Inl e, d') \<longrightarrow> d' = d)"
proof -
  have fail: "createOrder fails user body d = (Inl (itemError d item), d)"
    if f: "List.find (notOrderable d) (body_items body) = Some item" for item
  proof -
    from f have "body_items body \<noteq> []" by auto
    then show ?thesis
      using assms processItems_first_failure [where fails = fails and orderItems = "[]" and totalAmount = "Num 0", OF assms(5) f]
      by (simp add: createOrder_def)
  qed
  have 1: "createOrder fails user body d = (Inl (MenuItemNotFound (req_menuItemId item)), d)"
    if "List.find (notOrderable d) (body_items body) = Some item"
       "findMenuItem (req_menuItemId item) d = None" for item
    using fail [OF that(1)] that(2) by (simp add: itemError_def)
  have 2: "\<not> menuItem_isAvailable menuItem \<and>
      createOrder fails user body d = (Inl (MenuItemNotAvailable (menuItem_name menuItem)), d)"
    if "List.find (notOrderable d) (body_items body) = Some item"
       "findMenuItem (req_menuItemId item) d = Some menuItem" for item menuItem
  proof -
    from that(1) have "notOrderable d item" by (auto simp: find_Some_iff)
    with that(2) have "\<not> menuItem_isAvailable menuItem" by (simp add: notOrderable_def)
    then show ?thesis using fail [OF that(1)] that(2) by (simp add: itemError_def)
  qed
  have 3: "\<exists>order d'. createOrder fails user body d = (Inr order, d')"
    if "body_items body \<noteq> []" "List.find (notOrderable d) (body_items body) = None"
       "\<not> fails OrderCreate"
  proof -
    from processItems_succeeds [where fails = fails and orderItems = "[]" and totalAmount = "Num 0", OF assms(5) that(2)]
    obtain orderItems totalAmount where
      "processItems fails d (body_items body) [] (Num 0) = Inr (orderItems, totalAmount)"
      by (metis surj_pair)
    then show ?thesis using assms that by (simp add: createOrder_def Let_def)
  qed
  have 4: "\<forall>e d'. createOrder fails user body d = (Inl e, d') \<longrightarrow> d' = d"
    using createOrder_error_unchanged by blast
  from 1 2 3 4 show ?thesis by blast
qed

theorem item_failure_aborts_witness:
  "List.find (notOrderable restaurant) (body_items soup_order) = Some \<lparr>req_menuItemId = 4, req_quantity = 1\<rparr> \<and>
   findMenuItem 4 restaurant = Some soup \<and> findMenuItem 5 restaurant = None \<and>
   createOrder no_faults cashier1 soup_order restaurant = (Inl (MenuItemNotAvailable ''Soup''), restaurant)"
proof -
  have h: "user_id cashier1 \<noteq> 0" "actualCustomerId cashier1 (body_customerId soup_order) = Inr 12"
    "assignBranch no_faults soup_order restaurant = Inr (Some 1)" "(1::int) \<noteq> 0"
    "\<not> no_faults MenuItemFindUnique"
    by (simp_all add: cashier1_def actualCustomerId_def soup_order_def assignBranch_def no_faults_def)
  have m: "findMenuItem 4 restaurant = Some soup" "findMenuItem 5 restaurant = None"
    "findMenuItem 3 restaurant = Some steak"
    by (simp_all add: findMenuItem_def restaurant_def steak_def soup_def mint_def)
  have f: "List.find (notOrderable restaurant) (body_items soup_order) =
      Some \<lparr>req_menuItemId = 4, req_quantity = 1\<rparr>"
    by (simp add: soup_order_def notOrderable_def m) (simp add: steak_def soup_def)
  have s: "menuItem_name soup = ''Soup''" by (simp add: soup_def)
  show ?thesis
    using item_failure_aborts [where fails = no_faults, OF h] f m s
    by simp
qed


section \<open>Creating an order: the branch\<close>

lemma score_matchingPositions: "score a b = matchingPositions a b"
  by (induction a b rule: score.induct) (simp_all add: matchingPositions_def)

lemma bestBranch_first_maximum:
  "(bestBranch input bs best bestScore = best \<and>
      (\<forall>b\<in>set bs. score (normalize_str (branch_address b)) input \<le> bestScore)) \<or>
   (\<exists>pre post. bs = pre @ bestBranch input bs best bestScore # post \<and>
      bestScore < score (normalize_str (branch_address (bestBranch input bs best bestScore))) input \<and>
      (\<forall>b\<in>set pre. score (normalize_str (branch_address b)) input
          < score (normalize_str (branch_address (bestBranch input bs best bestScore))) input) \<and>
      (\<forall>b\<in>set post. score (normalize_str (branch_address b)) input
          \<le> score (normalize_str (branch_address (bestBranch input bs best bestScore))) input))"
proof (induction bs arbitrary: best bestScore)
  case Nil
  then show ?case by simp
next
  case (Cons b bs)
  let ?s = "\<lambda>x. score (normalize_str (branch_address x)) input"
  show ?case
  proof (cases "?s b > bestScore")
    case True
    let ?c = "bestBranch input bs b (?s b)"
    have c: "bestBranch input (b # bs) best bestScore = ?c" using True by simp
    from Cons.IH [of b "?s b"] show ?thesis
    proof
      assume "?c = b \<and> (\<forall>x\<in>set bs. ?s x \<le> ?s b)"
      then have "b # bs = [] @ ?c # bs \<and> bestScore < ?s ?c \<and>
          (\<forall>x\<in>set []. ?s x < ?s ?c) \<and> (\<forall>x\<in>set bs. ?s x \<le> ?s ?c)"
        using True by simp
      then show ?thesis unfolding c by blast
    next
      assume "\<exists>pre post. bs = pre @ ?c # post \<and> ?s b < ?s ?c \<and>
          (\<forall>x\<in>set pre. ?s x < ?s ?c) \<and> (\<forall>x\<in>set post. ?s x \<le> ?s ?c)"
      then obtain pre post where p: "bs = pre @ ?c # post" "?s b < ?s ?c"
          "\<forall>x\<in>set pre. ?s x < ?s ?c" "\<forall>x\<in>set post. ?s x \<le> ?s ?c"
        by blast
      then have "b # bs = (b # pre) @ ?c # post \<and> bestScore < ?s ?c \<and>
          (\<forall>x\<in>set (b # pre). ?s x < ?s ?c) \<and> (\<forall>x\<in>set post. ?s x \<le> ?s ?c)"
        using True by auto
      then show ?thesis unfolding c by blast
    qed
  next
    case False
    let ?c = "bestBranch input bs best bestScore"
    have c: "bestBranch input (b # bs) best bestScore = ?c" using False by simp
    from Cons.IH [of best bestScore] show ?thesis
    proof
      assume "?c = best \<and> (\<forall>x\<in>set bs. ?s x \<le> bestScore)"
      then show ?thesis unfolding c using False by auto
    next
      assume "\<exists>pre post. bs = pre @ ?c # post \<and> bestScore < ?s ?c \<and>
          (\<forall>x\<in>set pre. ?s x < ?s ?c) \<and> (\<forall>x\<in>set post. ?s x \<le> ?s ?c)"
      then obtain pre post where p: "bs = pre @ ?c # post" "bestScore < ?s ?c"
          "\<forall>x\<in>set pre. ?s x < ?s ?c" "\<forall>x\<in>set post. ?s x \<le> ?s ?c"
        by blast
      then have "b # bs = (b # pre) @ ?c # post \<and> bestScore < ?s ?c \<and>
          (\<forall>x\<in>set (b # pre). ?s x < ?s ?c) \<and> (\<forall>x\<in>set post. ?s x \<le> ?s ?c)"
        using False by auto
      then show ?thesis unfolding c by blast
    qed
  qed
qed


lemma assignBranch_by_address:
  assumes "\<not> truthy_number (body_branchId body)"
    and "body_deliveryAddress body = Some address" and "address \<noteq> []"
    and "\<not> fails BranchFindMany" and "branches d = first # rest"
  shows "assignBranch fails body d =
           Inr (Some (branch_id (bestBranch (normalize_str address) (branches d) first 0)))"
  using assms by (simp add: assignBranch_def)


text \<open>
  Claim C7. When the body has no branch id (absent or \<open>0\<close>) and a delivery address
  that is not empty, and the list of branches is read and is not empty, there is a branch
  \<open>chosen\<close> of the list such that, with the address and the addresses of the branches
  normalized (\<open>normalize_str\<close>: lower case, only letters and digits kept) and with the
  similarity of two strings the number of positions, up to the shorter length, where they
  agree: every branch before \<open>chosen\<close> in the list has a strictly smaller similarity,
  and every branch after it a similarity that is not larger. So \<open>chosen\<close> is the first
  branch of the highest similarity, and it is the first branch of the list when every
  similarity is zero. Every order that \<open>createOrder\<close> returns for this body is an order
  of the branch \<open>chosen\<close>, and \<open>createOrder\<close> does return one when the user may order,
  every requested item can be ordered and the store accepts the row.
\<close>

theorem branch_by_address:
  assumes "\<not> truthy_number (body_branchId body)"
    and "body_deliveryAddress body = Some address" and "address \<noteq> []"
    and "\<not> fails BranchFindMany" and "branches d = first # rest"
  shows "\<exists>chosen pre post.
           assignBranch fails body d = Inr (Some (branch_id chosen)) \<and>
           branches d = pre @ chosen # post \<and>
           (\<forall>b\<in>set pre. matchingPositions (normalize_str (branch_address b)) (normalize_str address)
               < matchingPositions (normalize_str (branch_address chosen)) (normalize_str address)) \<and>
           (\<forall>b\<in>set post. matchingPositions (normalize_str (branch_address b)) (normalize_str address)
               \<le> matchingPositions (normalize_str (branch_address chosen)) (normalize_str address)) \<and>
           ((\<forall>b\<in>set (branches d).
               matchingPositions (normalize_str (branch_address b)) (normalize_str address) = 0)
            \<longrightarrow> chosen = first) \<and>
           (\<forall>order d'. createOrder fails user body d = (Inr order, d') \<longrightarrow>
              order_branchId order = branch_id chosen) \<and>
           (user_id user \<noteq> 0 \<and> (\<exists>c. actualCustomerId user (body_customerId body) = Inr c) \<and>
            branch_id chosen \<noteq> 0 \<and> body_items body \<noteq> [] \<and>
            List.find (notOrderable d) (body_items body) = None \<and>
            \<not> fails MenuItemFindUnique \<and> \<not> fails OrderCreate \<longrightarrow>
              (\<exists>order d'. createOrder fails user body d = (Inr order, d') \<and>
                 order_branchId order = branch_id chosen))"
proof -
  define input where "input = normalize_str address"
  define c where "c = bestBranch input (branches d) first 0"
  let ?s = "\<lambda>x. matchingPositions (normalize_str (branch_address x)) input"
  have a: "assignBranch fails body d = Inr (Some (branch_id c))"
    unfolding c_def input_def by (rule assignBranch_by_address [where fails = fails, OF assms])
  have "\<exists>pre post. branches d = pre @ c # post \<and> (\<forall>b\<in>set pre. ?s b < ?s c) \<and>
      (\<forall>b\<in>set post. ?s b \<le> ?s c) \<and> ((\<forall>b\<in>set (branches d). ?s b = 0) \<longrightarrow> c = first)"
    using bestBranch_first_maximum [of input "branches d" first 0, folded c_def]
  proof
    assume h: "c = first \<and> (\<forall>b\<in>set (branches d). score (normalize_str (branch_address b)) input \<le> 0)"
    then have z: "\<forall>b\<in>set (branches d). ?s b = 0"
      by (simp add: score_matchingPositions)
    have "branches d = [] @ c # rest" using h assms(5) by simp
    moreover have "\<forall>b\<in>set rest. ?s b \<le> ?s c" using z assms(5) by simp
    ultimately have "branches d = [] @ c # rest \<and> (\<forall>b\<in>set []. ?s b < ?s c) \<and>
        (\<forall>b\<in>set rest. ?s b \<le> ?s c) \<and> ((\<forall>b\<in>set (branches d). ?s b = 0) \<longrightarrow> c = first)"
      using h by simp
    then show ?thesis by blast
  next
    assume "\<exists>pre post. branches d = pre @ c # post \<and>
        0 < score (normalize_str (branch_address c)) input \<and>
        (\<forall>b\<in>set pre. score (normalize_str (branch_address b)) input
            < score (normalize_str (branch_address c)) input) \<and>
        (\<forall>b\<in>set post. score (normalize_str (branch_address b)) input
            \<le> score (normalize_str (branch_address c)) input)"
    then obtain pre post where p: "branches d = pre @ c # post" "0 < ?s c"
        "\<forall>b\<in>set pre. ?s b < ?s c" "\<forall>b\<in>set post. ?s b \<le> ?s c"
      by (auto simp: score_matchingPositions)
    from p(1) have "c \<in> set (branches d)" by simp
    with p(2) have "(\<forall>b\<in>set (branches d). ?s b = 0) \<longrightarrow> c = first" by auto
    with p show ?thesis by blast
  qed
  moreover have "\<forall>order d'. createOrder fails user body d = (Inr order, d') \<longrightarrow>
      order_branchId order = branch_id c"
    using createOrder_success [of fails user body d] a by fastforce
  moreover have "user_id user \<noteq> 0 \<and> (\<exists>k. actualCustomerId user (body_customerId body) = Inr k) \<and>
      branch_id c \<noteq> 0 \<and> body_items body \<noteq> [] \<and>
      List.find (notOrderable d) (body_items body) = None \<and>
      \<not> fails MenuItemFindUnique \<and> \<not> fails OrderCreate \<longrightarrow>
        (\<exists>order d'. createOrder fails user body d = (Inr order, d') \<and>
           order_branchId order = branch_id c)"
    using createOrder_returns [where fails = fails and user = user and body = body and d = d
        and b = "branch_id c", OF _ _ a]
    by blast
  ultimately show ?thesis using a unfolding input_def by blast
qed

theorem branch_by_address_witness:
  "normalize_str ''42 Elm Street'' = ''42elmstreet'' \<and>
   normalize_str (branch_address elm) = ''42elmst'' \<and>
   normalize_str (branch_address oak) = ''99oakave'' \<and>
   matchingPositions ''42elmst'' ''42elmstreet'' = 7 \<and>
   matchingPositions ''99oakave'' ''42elmstreet'' = 0 \<and>
   assignBranch no_faults elm_street_order restaurant = Inr (Some 1) \<and>
   (\<exists>order d'. createOrder no_faults customer7 elm_street_order restaurant = (Inr order, d') \<and>
      order_branchId order = 1)"
proof -
  have n: "normalize_str ''42 Elm Street'' = ''42elmstreet''"
    "normalize_str (branch_address elm) = ''42elmst''"
    "normalize_str (branch_address oak) = ''99oakave''"
    by code_simp+
  have m: "matchingPositions ''42elmst'' ''42elmstreet'' = 7"
    "matchingPositions ''99oakave'' ''42elmstreet'' = 0"
    by (simp_all add: matchingPositions_def)
  have h: "\<not> truthy_number (body_branchId elm_street_order)"
    "body_deliveryAddress elm_street_order = Some ''42 Elm Street''" "''42 Elm Street'' \<noteq> []"
    "\<not> no_faults BranchFindMany" "branches restaurant = elm # [oak]"
    by (simp_all add: truthy_number_def elm_street_order_def no_faults_def restaurant_def)
  from branch_by_address [where fails = no_faults and user = customer7, OF h]
  obtain chosen pre post where c:
    "assignBranch no_faults elm_street_order restaurant = Inr (Some (branch_id chosen))"
    "branches restaurant = pre @ chosen # post"
    "\<forall>b\<in>set pre. matchingPositions (normalize_str (branch_address b)) (normalize_str ''42 Elm Street'')
        < matchingPositions (normalize_str (branch_address chosen)) (normalize_str ''42 Elm Street'')"
    "\<forall>order d'. createOrder no_faults customer7 elm_street_order restaurant = (Inr order, d') \<longrightarrow>
        order_branchId order = branch_id chosen"
    by blast
  from c(2) h(5) have "pre = [] \<and> chosen = elm \<or> pre = [elm] \<and> chosen = oak"
    by (auto simp: Cons_eq_append_conv append_eq_Cons_conv)
  with c(3) n m have e: "chosen = elm" by auto
  with c(1) have a: "assignBranch no_faults elm_street_order restaurant = Inr (Some 1)"
    by (simp add: elm_def)
  from c(4) e createOrder_elm_street
  have "\<exists>order d'. createOrder no_faults customer7 elm_street_order restaurant = (Inr order, d') \<and>
      order_branchId order = 1"
    by (simp add: elm_def)
  with a n m show ?thesis by simp
qed

end
